theory Spec2Isabelle
  imports Complex_Main
begin

section \<open>Values, errors and the external collaborators\<close>

text \<open>
  The driver \<^verbatim>\<open>train_single_gpu.py\<close> orchestrates calls into \<^verbatim>\<open>models\<close>,
  \<^verbatim>\<open>datasets\<close>, \<^verbatim>\<open>utils\<close> and the tensor framework.  Those collaborators are
  not part of the file; they appear here as the fields of a record of operations over an
  abstract state \<open>'w\<close> that stands for the model object together with the optimizer and
  the learning-rate scheduler attached to it (the three share their mutable state).
  Numbers that are floats in the program are reals here: rounding and NaN are not
  modelled.
\<close>

datatype error =
    KeyError string
  | IndexError
  | TypeError
  | AttributeError
  | UnboundLocalError
  | StatisticsError
  | RuntimeError
  | ZeroDivisionError

text \<open>Sequencing of fallible steps: an exception ends the computation.\<close>

fun bind_res :: "error + 'a \<Rightarrow> ('a \<Rightarrow> error + 'b) \<Rightarrow> error + 'b" where
  "bind_res (Inl e) f = Inl e"
| "bind_res (Inr x) f = f x"

text \<open>A tensor is the list of its slices along dimension 0; a batch is a dict from field
  names to tensors; a state dict maps parameter names to flat values.\<close>

type_synonym tensor = "real list list"

type_synonym batch = "(string \<times> tensor) list"

type_synonym state_dict = "(string \<times> real list) list"

type_synonym metric_fn = "tensor \<Rightarrow> tensor \<Rightarrow> real \<times> real \<times> real \<times> real"

text \<open>An item of a dataset maps field names to tensors, as a batch does.  A loader
  shuffles: it gives a sequence of batches for each pass over it, here indexed by the
  epoch in which the pass is made.\<close>

type_synonym sample = "(string \<times> tensor) list"

type_synonym dataset = "sample list"

type_synonym loader = "int \<Rightarrow> batch list"

text \<open>
  Configuration values as the YAML loader builds them.  A mapping is an object on the heap,
  referred to by its address, because \<^verbatim>\<open>save_model\<close> assigns into a mapping through a
  second reference to it.  Booleans are left out: no key that the driver reads is meant
  to hold one.
\<close>

type_synonym addr = nat

datatype val =
    VNone
  | VInt int
  | VNum real
  | VStr string
  | VList "val list"
  | VRef addr
  | VSd state_dict

type_synonym dict = "(string \<times> val) list"

record store =
  cells :: "addr \<Rightarrow> dict"
  nxt :: addr

record 'w ext =
  model_train :: "'w \<Rightarrow> 'w"
  model_eval :: "'w \<Rightarrow> 'w"
  set_input :: "tensor \<Rightarrow> tensor \<Rightarrow> 'w \<Rightarrow> 'w"
  optimize_parameters :: "'w \<Rightarrow> 'w"
  loss_G :: "'w \<Rightarrow> real"
  infer :: "'w \<Rightarrow> tensor \<Rightarrow> tensor"
  torch_sigmoid :: "tensor \<Rightarrow> tensor"
  calc_f1 :: metric_fn
  calc_fmeasure :: metric_fn
  calc_ber :: metric_fn
  calc_cod :: metric_fn
  model_state_dict :: "'w \<Rightarrow> state_dict"
  optimizer_state_dict :: "'w \<Rightarrow> state_dict"
  models_make :: "(addr \<Rightarrow> dict) \<Rightarrow> val \<Rightarrow> 'w"
  make_optimizer :: "(addr \<Rightarrow> dict) \<Rightarrow> val \<Rightarrow> 'w \<Rightarrow> 'w"
  cosine_annealing_lr :: "val \<Rightarrow> val \<Rightarrow> 'w \<Rightarrow> 'w"
  load_state_dict :: "val \<Rightarrow> 'w \<Rightarrow> 'w"
  requires_grad_all :: "'w \<Rightarrow> 'w"
  lr_scheduler_step :: "'w \<Rightarrow> 'w"
  current_lr :: "'w \<Rightarrow> real"
  datasets_make :: "(addr \<Rightarrow> dict) \<Rightarrow> val \<Rightarrow> dataset option \<Rightarrow> dataset"
  data_loader :: "dataset \<Rightarrow> val \<Rightarrow> loader"

section \<open>One training epoch (\<^verbatim>\<open>train\<close>)\<close>

text \<open>\<^verbatim>\<open>statistics.mean\<close>: raises on an empty list.\<close>

definition mean :: "real list \<Rightarrow> error + real" where
  "mean xs = (if xs = [] then Inl StatisticsError
              else Inr (sum_list xs / real (length xs)))"

text \<open>\<^verbatim>\<open>batch[k]\<close> for a field of a batch (the device transfer keeps the values).\<close>

definition batch_get :: "batch \<Rightarrow> string \<Rightarrow> error + tensor" where
  "batch_get b k = (case map_of b k of None \<Rightarrow> Inl (KeyError k) | Some v \<Rightarrow> Inr v)"

text \<open>The body of the \<^verbatim>\<open>for batch in train_loader\<close> loop, with \<open>loss_list\<close> as
  accumulator.\<close>

fun train_loop :: "'w ext \<Rightarrow> batch list \<Rightarrow> real list \<Rightarrow> 'w \<Rightarrow> error + (real list \<times> 'w)" where
  "train_loop X [] loss_list w = Inr (loss_list, w)"
| "train_loop X (b # bs) loss_list w =
     bind_res (batch_get b ''inp'') (\<lambda>inp.
     bind_res (batch_get b ''gt'') (\<lambda>gt.
       let w1 = set_input X inp gt w;
           w2 = optimize_parameters X w1
       in train_loop X bs (loss_list @ [loss_G X w2]) w2))"

text \<open>\<^verbatim>\<open>train(train_loader, model)\<close>.  The loader argument is \<open>None\<close> when the
  configuration has no training dataset; \<^verbatim>\<open>len(None)\<close> is a type error.\<close>

definition train :: "'w ext \<Rightarrow> batch list option \<Rightarrow> 'w \<Rightarrow> error + (real \<times> 'w)" where
  "train X train_loader w =
     (let w0 = model_train X w in
      case train_loader of
        None \<Rightarrow> Inl TypeError
      | Some bs \<Rightarrow>
          bind_res (train_loop X bs [] w0) (\<lambda>(loss_list, w').
          bind_res (mean loss_list) (\<lambda>m. Inr (m, w'))))"

section \<open>Dicts on the heap\<close>

text \<open>\<^verbatim>\<open>d.get(k)\<close>, \<^verbatim>\<open>d[k]\<close>, \<^verbatim>\<open>k in d\<close> and \<^verbatim>\<open>d[k] = v\<close> (an existing key keeps
  its position, a new key goes to the end).\<close>

definition dict_get :: "dict \<Rightarrow> string \<Rightarrow> val" where
  "dict_get d k = (case map_of d k of None \<Rightarrow> VNone | Some v \<Rightarrow> v)"

definition dict_item :: "dict \<Rightarrow> string \<Rightarrow> error + val" where
  "dict_item d k = (case map_of d k of None \<Rightarrow> Inl (KeyError k) | Some v \<Rightarrow> Inr v)"

definition dict_has :: "dict \<Rightarrow> string \<Rightarrow> bool" where
  "dict_has d k = (map_of d k \<noteq> None)"

fun dict_set :: "string \<Rightarrow> val \<Rightarrow> dict \<Rightarrow> dict" where
  "dict_set k v [] = [(k, v)]"
| "dict_set k v (p # d) = (if fst p = k then (k, v) # d else p # dict_set k v d)"

text \<open>\<^verbatim>\<open>obj[k] = v\<close> with a string key: only a mapping supports it.  (A state dict is a
  mapping too, but it is never the value of a configuration key that is assigned into.)\<close>

definition setitem :: "val \<Rightarrow> string \<Rightarrow> val \<Rightarrow> store \<Rightarrow> error + store" where
  "setitem obj k v s =
     (case obj of
        VRef a \<Rightarrow> Inr (s\<lparr>cells := (cells s)(a := dict_set k v (cells s a))\<rparr>)
      | _ \<Rightarrow> Inl TypeError)"

text \<open>\<^verbatim>\<open>obj[k]\<close> with a string key, on any value: a mapping looks the key up, a string or a
  list wants integer indices, the other values cannot be subscripted.  (An entry of a
  state dict is a tensor, given here as the list of its numbers.)\<close>

definition subscript :: "(addr \<Rightarrow> dict) \<Rightarrow> val \<Rightarrow> string \<Rightarrow> error + val" where
  "subscript c obj k =
     (case obj of
        VRef a \<Rightarrow> dict_item (c a) k
      | VSd sd \<Rightarrow> (case map_of sd k of
                     None \<Rightarrow> Inl (KeyError k)
                   | Some t \<Rightarrow> Inr (VList (map VNum t)))
      | _ \<Rightarrow> Inl TypeError)"

text \<open>A dict display allocates a new object.\<close>

definition alloc :: "dict \<Rightarrow> store \<Rightarrow> addr \<times> store" where
  "alloc d s = (nxt s, s\<lparr>cells := (cells s)(nxt s := d), nxt := Suc (nxt s)\<rparr>)"

text \<open>\<^verbatim>\<open>v + 1\<close>, and the integer that \<^verbatim>\<open>range\<close> demands of its arguments.\<close>

definition py_add1 :: "val \<Rightarrow> error + val" where
  "py_add1 v =
     (case v of
        VInt n \<Rightarrow> Inr (VInt (n + 1))
      | VNum r \<Rightarrow> Inr (VNum (r + 1))
      | _ \<Rightarrow> Inl TypeError)"

definition as_int :: "val \<Rightarrow> error + int" where
  "as_int v = (case v of VInt n \<Rightarrow> Inr n | _ \<Rightarrow> Inl TypeError)"

section \<open>What the run leaves behind\<close>

text \<open>
  A written file holds the object graph as it was when it was serialized: the value and
  the heap of that moment.  A log line is kept as the list of its parts (number formatting
  and the timing text are not modelled).
\<close>

datatype content =
    YamlDoc val "addr \<Rightarrow> dict"
  | Checkpoint val val "addr \<Rightarrow> dict"

datatype info =
    EpochInfo int int
  | TrainLoss real
  | ValMetric string real
  | TimeInfo

datatype event =
    FileWrite string string content
  | FileRead val
  | AddScalar string real int
  | AddScalars string string real int
  | LogLine "info list"
  | Flush

section \<open>Data loaders (\<^verbatim>\<open>make_data_loader\<close>, \<^verbatim>\<open>make_data_loaders\<close>)\<close>

text \<open>\<^verbatim>\<open>make_data_loader(spec, tag)\<close>: no loader for no spec; else the dataset is made
  from \<^verbatim>\<open>spec['dataset']\<close>, wrapped as \<^verbatim>\<open>spec['wrapper']\<close> says, its first item is
  inspected (an empty dataset has none), and the loader is built with
  \<^verbatim>\<open>spec['batch_size']\<close>.\<close>

definition make_data_loader :: "'w ext \<Rightarrow> store \<Rightarrow> val \<Rightarrow> error + loader option" where
  "make_data_loader X s spec =
     (if spec = VNone then Inr None
      else
        bind_res (subscript (cells s) spec ''dataset'') (\<lambda>dataset_spec.
        let dataset = datasets_make X (cells s) dataset_spec None in
        bind_res (subscript (cells s) spec ''wrapper'') (\<lambda>wrapper_spec.
        let wrapped = datasets_make X (cells s) wrapper_spec (Some dataset) in
        if wrapped = [] then Inl IndexError
        else
          bind_res (subscript (cells s) spec ''batch_size'') (\<lambda>batch_size.
            Inr (Some (data_loader X wrapped batch_size))))))"

definition make_data_loaders ::
  "'w ext \<Rightarrow> store \<Rightarrow> addr \<Rightarrow> error + (loader option \<times> loader option)" where
  "make_data_loaders X s config =
     bind_res (make_data_loader X s (dict_get (cells s config) ''train_dataset''))
       (\<lambda>train_loader.
     bind_res (make_data_loader X s (dict_get (cells s config) ''val_dataset''))
       (\<lambda>val_loader.
       Inr (train_loader, val_loader)))"

definition draw :: "loader option \<Rightarrow> int \<Rightarrow> batch list option" where
  "draw l epoch = map_option (\<lambda>f. f epoch) l"

section \<open>Validation (\<^verbatim>\<open>eval_psnr\<close>)\<close>

text \<open>The \<^verbatim>\<open>if/elif\<close> chain on \<open>eval_type\<close>; \<open>None\<close> when no branch is taken and the
  five variables stay unbound.\<close>

definition metric_bundle ::
  "'w ext \<Rightarrow> val \<Rightarrow> (metric_fn \<times> string \<times> string \<times> string \<times> string) option" where
  "metric_bundle X eval_type =
     (if eval_type = VStr ''f1'' then
        Some (calc_f1 X, ''f1'', ''auc'', ''none'', ''none'')
      else if eval_type = VStr ''fmeasure'' then
        Some (calc_fmeasure X, ''f_mea'', ''mae'', ''none'', ''none'')
      else if eval_type = VStr ''ber'' then
        Some (calc_ber X, ''shadow'', ''non_shadow'', ''ber'', ''none'')
      else if eval_type = VStr ''cod'' then
        Some (calc_cod X, ''sm'', ''em'', ''wfm'', ''mae'')
      else None)"

text \<open>\<^verbatim>\<open>torch.cat(ts, 0)\<close>: refuses an empty list.\<close>

definition torch_cat :: "tensor list \<Rightarrow> error + tensor" where
  "torch_cat ts = (if ts = [] then Inl RuntimeError else Inr (concat ts))"

fun eval_loop ::
  "'w ext \<Rightarrow> batch list \<Rightarrow> tensor list \<Rightarrow> tensor list \<Rightarrow> 'w \<Rightarrow> error + (tensor list \<times> tensor list)" where
  "eval_loop X [] pred_list gt_list w = Inr (pred_list, gt_list)"
| "eval_loop X (b # bs) pred_list gt_list w =
     bind_res (batch_get b ''inp'') (\<lambda>inp.
       let pred = torch_sigmoid X (infer X w inp) in
       bind_res (batch_get b ''gt'') (\<lambda>gt.
         eval_loop X bs (pred_list @ [pred]) (gt_list @ [gt]) w))"

definition eval_psnr ::
  "'w ext \<Rightarrow> batch list option \<Rightarrow> val \<Rightarrow> 'w \<Rightarrow>
   error + ((real \<times> real \<times> real \<times> real) \<times> (string \<times> string \<times> string \<times> string) \<times> 'w)" where
  "eval_psnr X loader eval_type w =
     (let w0 = model_eval X w;
          bundle = metric_bundle X eval_type
      in case loader of
           None \<Rightarrow> Inl TypeError
         | Some bs \<Rightarrow>
             bind_res (eval_loop X bs [] [] w0) (\<lambda>(pred_list, gt_list).
             bind_res (torch_cat pred_list) (\<lambda>preds.
             bind_res (torch_cat gt_list) (\<lambda>gts.
               case bundle of
                 None \<Rightarrow> Inl UnboundLocalError
               | Some (metric_fn, names) \<Rightarrow> Inr (metric_fn preds gts, names, w0)))))"

section \<open>Model, optimizer and schedule (\<^verbatim>\<open>prepare_training\<close>)\<close>

definition prepare_training :: "'w ext \<Rightarrow> store \<Rightarrow> addr \<Rightarrow> error + ('w \<times> val)" where
  "prepare_training X s config =
     (let c = cells s config in
      bind_res
        (if dict_get c ''resume'' \<noteq> VNone then
           bind_res (dict_item c ''model'') (\<lambda>model_spec.
           let model = models_make X (cells s) model_spec in
           bind_res (dict_item c ''optimizer'') (\<lambda>optimizer_spec.
           let optimizer = make_optimizer X (cells s) optimizer_spec model in
           bind_res (py_add1 (dict_get c ''resume'')) (\<lambda>epoch_start.
             Inr (optimizer, epoch_start))))
         else
           bind_res (dict_item c ''model'') (\<lambda>model_spec.
           let model = models_make X (cells s) model_spec in
           bind_res (dict_item c ''optimizer'') (\<lambda>optimizer_spec.
           let optimizer = make_optimizer X (cells s) optimizer_spec model in
             Inr (optimizer, VInt 1))))
        (\<lambda>(w, epoch_start).
           let max_epoch = dict_get c ''epoch_max'';
               w' = cosine_annealing_lr X max_epoch (dict_get c ''lr_min'') w
           in Inr (w', epoch_start)))"

section \<open>Checkpoints (\<^verbatim>\<open>save_model\<close>)\<close>

text \<open>\<open>model_spec\<close> and \<open>optimizer_spec\<close> are the objects stored in the configuration, not
  copies: the two assignments write into the configuration's own mappings.\<close>

definition save_model ::
  "'w ext \<Rightarrow> addr \<Rightarrow> 'w \<Rightarrow> string \<Rightarrow> string \<Rightarrow> store \<Rightarrow> error + (store \<times> event)" where
  "save_model X config w save_path name s =
     bind_res (dict_item (cells s config) ''model'') (\<lambda>model_spec.
     bind_res (setitem model_spec ''sd'' (VSd (model_state_dict X w)) s) (\<lambda>s1.
     bind_res (dict_item (cells s1 config) ''optimizer'') (\<lambda>optimizer_spec.
     bind_res (setitem optimizer_spec ''sd'' (VSd (optimizer_state_dict X w)) s1) (\<lambda>s2.
       Inr (s2, FileWrite save_path (''model_'' @ name @ ''.pth'')
                  (Checkpoint model_spec optimizer_spec (cells s2)))))))"

section \<open>The driver (\<^verbatim>\<open>main\<close>)\<close>

text \<open>The variables the epoch loop carries: the model with its optimizer and schedule,
  the heap holding the configuration, the best metric so far, and what has been written.\<close>

record 'w run =
  world :: 'w
  heap :: store
  max_val_v :: real
  events :: "event list"

text \<open>The default \<open>data_norm\<close>: three new dicts, the outer one stored in the configuration.\<close>

definition inject_data_norm :: "addr \<Rightarrow> store \<Rightarrow> store" where
  "inject_data_norm config s =
     (let (a_inp, s1) = alloc [(''sub'', VList [VInt 0]), (''div'', VList [VInt 1])] s;
          (a_gt, s2) = alloc [(''sub'', VList [VInt 0]), (''div'', VList [VInt 1])] s1;
          (a_dn, s3) = alloc [(''inp'', VRef a_inp), (''gt'', VRef a_gt)] s2
      in s3\<lparr>cells := (cells s3)(config := dict_set ''data_norm'' (VRef a_dn) (cells s3 config))\<rparr>)"

text \<open>\<^verbatim>\<open>(epoch_val is not None) and (epoch % epoch_val == 0)\<close>.\<close>

definition is_val_epoch :: "val \<Rightarrow> int \<Rightarrow> error + bool" where
  "is_val_epoch epoch_val epoch =
     (case epoch_val of
        VNone \<Rightarrow> Inr False
      | VInt k \<Rightarrow> if k = 0 then Inl ZeroDivisionError else Inr (epoch mod k = 0)
      | VNum r \<Rightarrow> if r = 0 then Inl ZeroDivisionError
                  else Inr (of_int epoch - r * of_int \<lfloor>of_int epoch / r\<rfloor> = 0)
      | _ \<Rightarrow> Inl TypeError)"

text \<open>The initial value of the best-metric tracker.\<close>

definition init_max_val_v :: "val \<Rightarrow> real" where
  "init_max_val_v eval_type = (if eval_type \<noteq> VStr ''ber'' then - (10 ^ 18) else 10 ^ 8)"

text \<open>The body of the \<^verbatim>\<open>if\<close> on validation epochs: evaluate, record the four metrics,
  keep the best checkpoint, emit the log line.  \<open>st\<close> is the state after the \<open>last\<close>
  checkpoint has been saved.\<close>

definition validate ::
  "'w ext \<Rightarrow> addr \<Rightarrow> string \<Rightarrow> loader option \<Rightarrow> int \<Rightarrow> info list \<Rightarrow> 'w run \<Rightarrow> error + 'w run" where
  "validate X config save_path val_loader epoch log_info st =
     bind_res (eval_psnr X (draw val_loader epoch)
                 (dict_get (cells (heap st) config) ''eval_type'') (world st))
       (\<lambda>((result1, result2, result3, result4), (metric1, metric2, metric3, metric4), w).
        let log_info' = log_info @ [ValMetric metric1 result1, ValMetric metric2 result2,
                                    ValMetric metric3 result3, ValMetric metric4 result4];
            ev = events st @ [AddScalars metric1 ''val'' result1 epoch,
                              AddScalars metric2 ''val'' result2 epoch,
                              AddScalars metric3 ''val'' result3 epoch,
                              AddScalars metric4 ''val'' result4 epoch]
        in
        bind_res (dict_item (cells (heap st) config) ''eval_type'') (\<lambda>eval_type.
        bind_res
          (if eval_type \<noteq> VStr ''ber'' then
             (if result1 > max_val_v st then
                bind_res (save_model X config w save_path ''best'' (heap st))
                  (\<lambda>(s', wr). Inr (result1, s', [wr]))
              else Inr (max_val_v st, heap st, []))
           else
             (if result3 < max_val_v st then
                bind_res (save_model X config w save_path ''best'' (heap st))
                  (\<lambda>(s', wr). Inr (result3, s', [wr]))
              else Inr (max_val_v st, heap st, [])))
          (\<lambda>(best, s', wr).
             Inr \<lparr>world = w, heap = s', max_val_v = best,
                  events = ev @ wr @ [LogLine (log_info' @ [TimeInfo]), Flush]\<rparr>)))"

text \<open>One iteration of \<^verbatim>\<open>for epoch in range(epoch_start, epoch_max + 1)\<close>.\<close>

definition epoch_step ::
  "'w ext \<Rightarrow> addr \<Rightarrow> string \<Rightarrow> loader option \<Rightarrow> loader option \<Rightarrow> int \<Rightarrow> val \<Rightarrow> int \<Rightarrow>
   'w run \<Rightarrow> error + 'w run" where
  "epoch_step X config save_path train_loader val_loader epoch_max epoch_val epoch st =
     bind_res (train X (draw train_loader epoch) (world st)) (\<lambda>(train_loss_G, w1).
     let w2 = lr_scheduler_step X w1;
         log_info = [EpochInfo epoch epoch_max, TrainLoss train_loss_G];
         ev = events st @ [AddScalar ''lr'' (current_lr X w2) epoch,
                           AddScalars ''loss'' ''train G'' train_loss_G epoch]
     in
     bind_res (save_model X config w2 save_path ''last'' (heap st)) (\<lambda>(s1, wr).
     let st1 = \<lparr>world = w2, heap = s1, max_val_v = max_val_v st, events = ev @ [wr]\<rparr> in
     bind_res (is_val_epoch epoch_val epoch) (\<lambda>do_val.
       if do_val then validate X config save_path val_loader epoch log_info st1
       else Inr st1)))"

primrec epoch_loop ::
  "'w ext \<Rightarrow> addr \<Rightarrow> string \<Rightarrow> loader option \<Rightarrow> loader option \<Rightarrow> int \<Rightarrow> val \<Rightarrow> int list \<Rightarrow>
   'w run \<Rightarrow> error + 'w run" where
  "epoch_loop X config save_path train_loader val_loader epoch_max epoch_val [] st = Inr st"
| "epoch_loop X config save_path train_loader val_loader epoch_max epoch_val (epoch # es) st =
     bind_res (epoch_step X config save_path train_loader val_loader epoch_max epoch_val epoch st)
       (epoch_loop X config save_path train_loader val_loader epoch_max epoch_val es)"

text \<open>\<^verbatim>\<open>torch.load(f)\<close> reads the file at a path; a value that is not a path is taken for
  a file object and has no \<^verbatim>\<open>seek\<close>.\<close>

definition torch_load :: "val \<Rightarrow> error + event" where
  "torch_load f = (case f of VStr path \<Rightarrow> Inr (FileRead f) | _ \<Rightarrow> Inl AttributeError)"

text \<open>\<^verbatim>\<open>main(config_, save_path)\<close>, from the write of \<open>config.yaml\<close> to the end of the
  epoch loop.  (Creating the run directory, the printing and the timer leave no trace
  here.)\<close>

definition main :: "'w ext \<Rightarrow> addr \<Rightarrow> string \<Rightarrow> store \<Rightarrow> error + 'w run" where
  "main X config save_path s =
     (let ev0 = [FileWrite save_path ''config.yaml'' (YamlDoc (VRef config) (cells s))] in
      bind_res (make_data_loaders X s config) (\<lambda>(train_loader, val_loader).
      let s1 = (if dict_get (cells s config) ''data_norm'' = VNone
                then inject_data_norm config s else s);
          c = cells s1 config
      in
      bind_res (prepare_training X s1 config) (\<lambda>(w, epoch_start).
      bind_res (dict_item c ''epoch_max'') (\<lambda>t_max.
      let w1 = cosine_annealing_lr X t_max (dict_get c ''lr_min'') w in
      bind_res
        (if dict_has c ''sam_checkpoint'' then
           bind_res (torch_load (dict_get c ''sam_checkpoint'')) (\<lambda>rd.
             Inr (load_state_dict X (dict_get c ''sam_checkpoint'') w1, [rd]))
         else Inr (w1, []))
        (\<lambda>(w2, ev1).
      let w3 = requires_grad_all X w2 in
      bind_res (dict_item c ''epoch_max'') (\<lambda>epoch_max.
      let epoch_val = dict_get c ''epoch_val'' in
      bind_res (dict_item c ''eval_type'') (\<lambda>eval_type.
      let best0 = init_max_val_v eval_type in
      bind_res (as_int epoch_start) (\<lambda>first.
      bind_res (bind_res (py_add1 epoch_max) as_int) (\<lambda>stop.
        epoch_loop X config save_path train_loader val_loader (stop - 1) epoch_val
          [first..stop - 1]
          \<lparr>world = w3, heap = s1, max_val_v = best0, events = ev0 @ ev1\<rparr>)))))))))"

section \<open>Notions used in the statements\<close>

text \<open>One training epoch as the specification describes it, written without the loop:
  a batch is well formed when it has its two fields, and the states reached are those of
  taking the optimization step on each batch in turn.\<close>

definition batch_ok :: "batch \<Rightarrow> bool" where
  "batch_ok b = (map_of b ''inp'' \<noteq> None \<and> map_of b ''gt'' \<noteq> None)"

definition opt_step :: "'w ext \<Rightarrow> 'w \<Rightarrow> batch \<Rightarrow> 'w" where
  "opt_step X w b =
     optimize_parameters X (set_input X (the (map_of b ''inp'')) (the (map_of b ''gt'')) w)"

primrec states_after :: "'w ext \<Rightarrow> 'w \<Rightarrow> batch list \<Rightarrow> 'w list" where
  "states_after X w [] = []"
| "states_after X w (b # bs) = opt_step X w b # states_after X (opt_step X w b) bs"

text \<open>What validation scores: the predictions and the ground truths of all batches,
  concatenated in loader order.\<close>

definition predictions :: "'w ext \<Rightarrow> 'w \<Rightarrow> batch list \<Rightarrow> tensor" where
  "predictions X w bs =
     concat (map (\<lambda>b. torch_sigmoid X (infer X w (the (map_of b ''inp'')))) bs)"

definition ground_truths :: "batch list \<Rightarrow> tensor" where
  "ground_truths bs = concat (map (\<lambda>b. the (map_of b ''gt'')) bs)"

text \<open>The heap after a checkpoint save of state \<open>w\<close>: the mapping at \<open>am\<close> (the model
  spec) and then the mapping at \<open>ao\<close> (the optimizer spec) get their \<open>sd\<close> entry; and the
  file such a save writes.\<close>

definition with_sd :: "'w ext \<Rightarrow> 'w \<Rightarrow> addr \<Rightarrow> addr \<Rightarrow> (addr \<Rightarrow> dict) \<Rightarrow> addr \<Rightarrow> dict" where
  "with_sd X w am ao c =
     (let c1 = c(am := dict_set ''sd'' (VSd (model_state_dict X w)) (c am))
      in c1(ao := dict_set ''sd'' (VSd (optimizer_state_dict X w)) (c1 ao)))"

definition checkpoint_file ::
  "'w ext \<Rightarrow> 'w \<Rightarrow> addr \<Rightarrow> addr \<Rightarrow> (addr \<Rightarrow> dict) \<Rightarrow> string \<Rightarrow> string \<Rightarrow> event" where
  "checkpoint_file X w am ao c save_path name =
     FileWrite save_path (''model_'' @ name @ ''.pth'')
       (Checkpoint (VRef am) (VRef ao) (with_sd X w am ao c))"

text \<open>The specification's comparison: the active metric is the first result, to be
  maximized, except for \<open>ber\<close>, where it is the third, to be minimized.\<close>

definition improves :: "val \<Rightarrow> real \<Rightarrow> real \<times> real \<times> real \<times> real \<Rightarrow> bool" where
  "improves eval_type best r =
     (case r of (r1, r2, r3, r4) \<Rightarrow> if eval_type \<noteq> VStr ''ber'' then r1 > best else r3 < best)"

definition active_metric :: "val \<Rightarrow> real \<times> real \<times> real \<times> real \<Rightarrow> real" where
  "active_metric eval_type r =
     (case r of (r1, r2, r3, r4) \<Rightarrow> if eval_type \<noteq> VStr ''ber'' then r1 else r3)"

text \<open>The four validation scalars and the four parts they add to the log line.\<close>

definition val_scalars ::
  "real \<times> real \<times> real \<times> real \<Rightarrow> string \<times> string \<times> string \<times> string \<Rightarrow> int \<Rightarrow> event list" where
  "val_scalars r names epoch =
     (case (r, names) of ((r1, r2, r3, r4), (m1, m2, m3, m4)) \<Rightarrow>
        [AddScalars m1 ''val'' r1 epoch, AddScalars m2 ''val'' r2 epoch,
         AddScalars m3 ''val'' r3 epoch, AddScalars m4 ''val'' r4 epoch])"

definition val_infos ::
  "real \<times> real \<times> real \<times> real \<Rightarrow> string \<times> string \<times> string \<times> string \<Rightarrow> info list" where
  "val_infos r names =
     (case (r, names) of ((r1, r2, r3, r4), (m1, m2, m3, m4)) \<Rightarrow>
        [ValMetric m1 r1, ValMetric m2 r2, ValMetric m3 r3, ValMetric m4 r4])"

text \<open>Projections of the trace: the file writes, and everything else.\<close>

fun is_write :: "event \<Rightarrow> bool" where
  "is_write (FileWrite d n c) = True"
| "is_write e = False"

definition file_writes :: "event list \<Rightarrow> event list" where
  "file_writes evs = filter is_write evs"

definition scalars_and_logs :: "event list \<Rightarrow> event list" where
  "scalars_and_logs evs = filter (\<lambda>e. \<not> is_write e) evs"

text \<open>File reads in a trace, and the epochs of a trace: each iteration of the epoch
  loop records the learning rate exactly once, with its epoch number.\<close>

fun is_read :: "event \<Rightarrow> bool" where
  "is_read (FileRead v) = True"
| "is_read e = False"

fun epoch_of_lr :: "event \<Rightarrow> int list" where
  "epoch_of_lr (AddScalar tag v epoch) = [epoch]"
| "epoch_of_lr e = []"

definition epochs_run :: "event list \<Rightarrow> int list" where
  "epochs_run evs = concat (map epoch_of_lr evs)"

text \<open>The heap, the trace and the model state with which \<open>main\<close> enters the epoch loop.\<close>

definition start_store :: "addr \<Rightarrow> store \<Rightarrow> store" where
  "start_store config s =
     (if dict_get (cells s config) ''data_norm'' = VNone then inject_data_norm config s else s)"

definition start_events :: "addr \<Rightarrow> string \<Rightarrow> store \<Rightarrow> event list" where
  "start_events config save_path s =
     FileWrite save_path ''config.yaml'' (YamlDoc (VRef config) (cells s))
     # (if dict_has (cells (start_store config s) config) ''sam_checkpoint''
        then [FileRead (dict_get (cells (start_store config s) config) ''sam_checkpoint'')]
        else [])"

definition start_world :: "'w ext \<Rightarrow> dict \<Rightarrow> 'w \<Rightarrow> 'w" where
  "start_world X c w =
     (let w1 = cosine_annealing_lr X (dict_get c ''epoch_max'') (dict_get c ''lr_min'') w;
          w2 = (if dict_has c ''sam_checkpoint''
                then load_state_dict X (dict_get c ''sam_checkpoint'') w1 else w1)
      in requires_grad_all X w2)"

text \<open>The state of model, optimizer and schedule with which \<open>main\<close> enters the epoch
  loop: built from the two specs, scheduled twice, with the pretrained weights loaded when
  \<open>sam_checkpoint\<close> is present.\<close>

definition entry_world :: "'w ext \<Rightarrow> store \<Rightarrow> addr \<Rightarrow> 'w" where
  "entry_world X s1 config =
     (let c = cells s1 config;
          model = models_make X (cells s1) (dict_get c ''model'');
          optimizer = make_optimizer X (cells s1) (dict_get c ''optimizer'') model;
          w = cosine_annealing_lr X (dict_get c ''epoch_max'') (dict_get c ''lr_min'') optimizer
      in start_world X c w)"

text \<open>The address of the mapping stored under a key (0 when the key holds none).\<close>

definition spec_addr :: "dict \<Rightarrow> string \<Rightarrow> addr" where
  "spec_addr d k = (case dict_get d k of VRef a \<Rightarrow> a | _ \<Rightarrow> 0)"

text \<open>
  What one epoch of a run did: its number, the training loss and the state that training
  left, and, when the epoch validated, the four results, the four metric names and the
  state that validation left.  \<open>follows\<close> says that a list of such outcomes is what the
  code computes, epoch after epoch, from a given state: each epoch trains from the state
  the previous one left, and validates, with \<open>eval_psnr\<close>, exactly when the epoch is a
  validation epoch.
\<close>

datatype 'w out =
  Out (out_epoch: int) (out_loss: real) (out_trained: 'w)
      (out_val: "((real \<times> real \<times> real \<times> real) \<times> (string \<times> string \<times> string \<times> string) \<times> 'w) option")

definition out_world :: "'w ext \<Rightarrow> 'w out \<Rightarrow> 'w" where
  "out_world X u =
     (case out_val u of
        None \<Rightarrow> lr_scheduler_step X (out_trained u)
      | Some (r, names, w) \<Rightarrow> w)"

primrec follows ::
  "'w ext \<Rightarrow> loader option \<Rightarrow> loader option \<Rightarrow> val \<Rightarrow> val \<Rightarrow> 'w \<Rightarrow> 'w out list \<Rightarrow> bool" where
  "follows X train_loader val_loader eval_type epoch_val w [] = True"
| "follows X train_loader val_loader eval_type epoch_val w (u # us) =
     (train X (draw train_loader (out_epoch u)) w = Inr (out_loss u, out_trained u)
      \<and> (case out_val u of
            None \<Rightarrow> is_val_epoch epoch_val (out_epoch u) = Inr False
          | Some v \<Rightarrow>
              is_val_epoch epoch_val (out_epoch u) = Inr True
            \<and> eval_psnr X (draw val_loader (out_epoch u)) eval_type
                (lr_scheduler_step X (out_trained u)) = Inr v)
      \<and> follows X train_loader val_loader eval_type epoch_val (out_world X u) us)"

primrec run_world :: "'w ext \<Rightarrow> 'w \<Rightarrow> 'w out list \<Rightarrow> 'w" where
  "run_world X w [] = w"
| "run_world X w (u # us) = run_world X (out_world X u) us"

text \<open>The best-metric tracker as the specification describes it: carried from epoch to
  epoch, replaced by the active metric of a validating epoch when that strictly
  improves on it.\<close>

definition next_best :: "val \<Rightarrow> real \<Rightarrow> 'w out \<Rightarrow> real" where
  "next_best eval_type best u =
     (case out_val u of
        None \<Rightarrow> best
      | Some (r, names, w) \<Rightarrow>
          if improves eval_type best r then active_metric eval_type r else best)"

primrec run_best :: "val \<Rightarrow> real \<Rightarrow> 'w out list \<Rightarrow> real" where
  "run_best eval_type best [] = best"
| "run_best eval_type best (u # us) = run_best eval_type (next_best eval_type best u) us"

text \<open>The checkpoint files of a run as the specification describes them: \<open>last\<close> in every
  epoch, \<open>best\<close> in the epochs whose validation strictly improves on the best so far.\<close>

definition out_writes ::
  "'w ext \<Rightarrow> val \<Rightarrow> addr \<Rightarrow> addr \<Rightarrow> (addr \<Rightarrow> dict) \<Rightarrow> string \<Rightarrow> real \<Rightarrow> 'w out \<Rightarrow> event list" where
  "out_writes X eval_type am ao c save_path best u =
     checkpoint_file X (lr_scheduler_step X (out_trained u)) am ao c save_path ''last''
     # (case out_val u of
          None \<Rightarrow> []
        | Some (r, names, w) \<Rightarrow>
            if improves eval_type best r
            then [checkpoint_file X w am ao c save_path ''best''] else [])"

primrec run_writes ::
  "'w ext \<Rightarrow> val \<Rightarrow> addr \<Rightarrow> addr \<Rightarrow> (addr \<Rightarrow> dict) \<Rightarrow> string \<Rightarrow> real \<Rightarrow> 'w out list \<Rightarrow> event list" where
  "run_writes X eval_type am ao c save_path best [] = []"
| "run_writes X eval_type am ao c save_path best (u # us) =
     out_writes X eval_type am ao c save_path best u
     @ run_writes X eval_type am ao c save_path (next_best eval_type best u) us"

text \<open>The whole trace of an epoch and of a run, and the heap a run leaves: every save
  stores the state dicts of the state it saves.\<close>

definition out_events ::
  "'w ext \<Rightarrow> val \<Rightarrow> addr \<Rightarrow> addr \<Rightarrow> (addr \<Rightarrow> dict) \<Rightarrow> string \<Rightarrow> int \<Rightarrow> real \<Rightarrow> 'w out \<Rightarrow> event list" where
  "out_events X eval_type am ao c save_path epoch_max best u =
     [AddScalar ''lr'' (current_lr X (lr_scheduler_step X (out_trained u))) (out_epoch u),
      AddScalars ''loss'' ''train G'' (out_loss u) (out_epoch u),
      checkpoint_file X (lr_scheduler_step X (out_trained u)) am ao c save_path ''last'']
     @ (case out_val u of
          None \<Rightarrow> []
        | Some (r, names, w) \<Rightarrow>
            val_scalars r names (out_epoch u)
            @ (if improves eval_type best r
               then [checkpoint_file X w am ao c save_path ''best''] else [])
            @ [LogLine ([EpochInfo (out_epoch u) epoch_max, TrainLoss (out_loss u)]
                        @ val_infos r names @ [TimeInfo]), Flush])"

primrec run_events ::
  "'w ext \<Rightarrow> val \<Rightarrow> addr \<Rightarrow> addr \<Rightarrow> (addr \<Rightarrow> dict) \<Rightarrow> string \<Rightarrow> int \<Rightarrow> real \<Rightarrow> 'w out list \<Rightarrow> event list" where
  "run_events X eval_type am ao c save_path epoch_max best [] = []"
| "run_events X eval_type am ao c save_path epoch_max best (u # us) =
     out_events X eval_type am ao c save_path epoch_max best u
     @ run_events X eval_type am ao c save_path epoch_max (next_best eval_type best u) us"

definition out_saved :: "'w ext \<Rightarrow> val \<Rightarrow> real \<Rightarrow> 'w out \<Rightarrow> 'w" where
  "out_saved X eval_type best u =
     (case out_val u of
        None \<Rightarrow> lr_scheduler_step X (out_trained u)
      | Some (r, names, w) \<Rightarrow>
          if improves eval_type best r then w else lr_scheduler_step X (out_trained u))"

primrec run_cells ::
  "'w ext \<Rightarrow> val \<Rightarrow> addr \<Rightarrow> addr \<Rightarrow> (addr \<Rightarrow> dict) \<Rightarrow> real \<Rightarrow> 'w out list \<Rightarrow> addr \<Rightarrow> dict" where
  "run_cells X eval_type am ao c best [] = c"
| "run_cells X eval_type am ao c best (u # us) =
     run_cells X eval_type am ao (with_sd X (out_saved X eval_type best u) am ao c)
       (next_best eval_type best u) us"

text \<open>\<open>run_of\<close>: the outcomes are those of a run of \<open>main\<close> on the configuration: the
  epochs are \<open>first\<close> (1, or \<open>resume + 1\<close>) to \<open>epoch_max\<close>, in order, and they follow from
  the state with which the loop is entered.\<close>

definition run_of :: "'w ext \<Rightarrow> addr \<Rightarrow> store \<Rightarrow> int \<Rightarrow> int \<Rightarrow> 'w out list \<Rightarrow> bool" where
  "run_of X config s first final outs =
     (let c = cells s config in
      case make_data_loaders X s config of
        Inl e \<Rightarrow> False
      | Inr (train_loader, val_loader) \<Rightarrow>
          dict_item c ''epoch_max'' = Inr (VInt final)
        \<and> (if dict_get c ''resume'' = VNone then first = 1
            else dict_get c ''resume'' = VInt (first - 1))
        \<and> map out_epoch outs = [first..final]
        \<and> follows X train_loader val_loader (dict_get c ''eval_type'') (dict_get c ''epoch_val'')
              (entry_world X (start_store config s) config) outs)"

text \<open>Conditions under which no step of a run raises: the configuration names a model and
  an optimizer spec, \<open>epoch_max\<close> and \<open>resume\<close> are integers, \<open>eval_type\<close> is present,
  \<open>sam_checkpoint\<close> is a path when present, the loaders can be built, the training loader
  yields at least one well-formed batch in every epoch, and validation is either off or
  has a non-zero period, a known evaluation type and such a loader too.\<close>

fun is_ref :: "error + val \<Rightarrow> bool" where
  "is_ref (Inr (VRef a)) = True"
| "is_ref r = False"

fun nonzero_int :: "val \<Rightarrow> bool" where
  "nonzero_int (VInt k) = (k \<noteq> 0)"
| "nonzero_int v = False"

fun is_path :: "val \<Rightarrow> bool" where
  "is_path (VStr p) = True"
| "is_path v = False"

definition loader_ok :: "loader option \<Rightarrow> int list \<Rightarrow> bool" where
  "loader_ok l es =
     (case l of None \<Rightarrow> False
      | Some f \<Rightarrow> list_all (\<lambda>e. f e \<noteq> [] \<and> list_all batch_ok (f e)) es)"

definition loaders_ok ::
  "error + (loader option \<times> loader option) \<Rightarrow> bool \<Rightarrow> int list \<Rightarrow> bool" where
  "loaders_ok r validating es =
     (case r of
        Inl e \<Rightarrow> False
      | Inr (train_loader, val_loader) \<Rightarrow>
          loader_ok train_loader es \<and> (validating \<longrightarrow> loader_ok val_loader es))"

definition runnable :: "'w ext \<Rightarrow> addr \<Rightarrow> store \<Rightarrow> int \<Rightarrow> int \<Rightarrow> bool" where
  "runnable X config s first final =
     (let c = cells s config in
        is_ref (dict_item c ''model'') \<and> is_ref (dict_item c ''optimizer'')
      \<and> dict_item c ''epoch_max'' = Inr (VInt final)
      \<and> (if dict_get c ''resume'' = VNone then first = 1
          else dict_get c ''resume'' = VInt (first - 1))
      \<and> dict_has c ''eval_type''
      \<and> (dict_has c ''sam_checkpoint'' \<longrightarrow> is_path (dict_get c ''sam_checkpoint''))
      \<and> loaders_ok (make_data_loaders X s config) (dict_get c ''epoch_val'' \<noteq> VNone)
            [first..final]
      \<and> (dict_get c ''epoch_val'' = VNone
          \<or> nonzero_int (dict_get c ''epoch_val'')
            \<and> dict_get c ''eval_type'' \<in> {VStr ''f1'', VStr ''fmeasure'', VStr ''ber'', VStr ''cod''}))"

text \<open>Observations of a finished run.\<close>

definition run_reads :: "error + 'w run \<Rightarrow> error + event list" where
  "run_reads r = (case r of Inl e \<Rightarrow> Inl e | Inr st \<Rightarrow> Inr (filter is_read (events st)))"

definition run_log :: "error + 'w run \<Rightarrow> error + event list" where
  "run_log r = (case r of Inl e \<Rightarrow> Inl e | Inr st \<Rightarrow> Inr (scalars_and_logs (events st)))"

definition cells_after :: "error + 'w run \<Rightarrow> addr \<Rightarrow> dict option" where
  "cells_after r a = (case r of Inl e \<Rightarrow> None | Inr st \<Rightarrow> Some (cells (heap st) a))"

section \<open>A small instance of the collaborators, for evaluating the driver\<close>

text \<open>The state is a count of optimization steps, 0 for a freshly built model and 100
  more once pretrained weights are loaded; the loss after a step is that count.  A dataset
  has one item and its loader yields it as the one batch of every epoch.\<close>

definition demo_ext :: "int ext" where
  "demo_ext =
     \<lparr>model_train = (\<lambda>w. w), model_eval = (\<lambda>w. w),
      set_input = (\<lambda>inp gt w. w), optimize_parameters = (\<lambda>w. w + 1),
      loss_G = (\<lambda>w. of_int w), infer = (\<lambda>w t. t), torch_sigmoid = (\<lambda>t. t),
      calc_f1 = (\<lambda>p g. (real (length p), 0, 0, 0)),
      calc_fmeasure = (\<lambda>p g. (real (length p), 0, 0, 0)),
      calc_ber = (\<lambda>p g. (0, 0, real (length p), 0)),
      calc_cod = (\<lambda>p g. (real (length p), 0, 0, 0)),
      model_state_dict = (\<lambda>w. [(''weight'', [of_int w])]),
      optimizer_state_dict = (\<lambda>w. [(''step'', [of_int w])]),
      models_make = (\<lambda>c v. 0), make_optimizer = (\<lambda>c v w. w),
      cosine_annealing_lr = (\<lambda>t m w. w), load_state_dict = (\<lambda>v w. w + 100),
      requires_grad_all = (\<lambda>w. w), lr_scheduler_step = (\<lambda>w. w),
      current_lr = (\<lambda>w. 1),
      datasets_make = (\<lambda>c v d. case d of None \<Rightarrow> [[(''inp'', [[0]]), (''gt'', [[1]])]]
                                 | Some ds \<Rightarrow> ds),
      data_loader = (\<lambda>ds b epoch. ds)\<rparr>"

text \<open>Configurations as loaded: the top-level mapping at address 0, the model spec at
  1, the optimizer spec at 2, the training dataset spec at 3 (dataset 4, wrapper 5) and
  the validation dataset spec at 6 (dataset 7, wrapper 8).  The full one resumes after
  epoch 1, loads pretrained weights and validates every epoch up to epoch 3; the plain
  one does none of these and runs epochs 1 and 2.\<close>

definition demo_heap :: "dict \<Rightarrow> addr \<Rightarrow> dict" where
  "demo_heap cfg =
     ((\<lambda>a. [])
       (0 := cfg,
        1 := [(''name'', VStr ''sam'')],
        2 := [(''name'', VStr ''adamw'')],
        3 := [(''dataset'', VRef 4), (''wrapper'', VRef 5), (''batch_size'', VInt 1)],
        4 := [(''name'', VStr ''paired-image-folders'')],
        5 := [(''name'', VStr ''train'')],
        6 := [(''dataset'', VRef 7), (''wrapper'', VRef 8), (''batch_size'', VInt 1)],
        7 := [(''name'', VStr ''paired-image-folders'')],
        8 := [(''name'', VStr ''val'')]))"

definition demo_top :: dict where
  "demo_top =
     [(''train_dataset'', VRef 3), (''val_dataset'', VRef 6), (''eval_type'', VStr ''f1''),
      (''sam_checkpoint'', VStr ''pretrained/sam_vit_b.pth''),
      (''model'', VRef 1), (''optimizer'', VRef 2), (''lr_min'', VNum (1 / 10 ^ 7)),
      (''epoch_max'', VInt 3), (''epoch_val'', VInt 1), (''resume'', VInt 1)]"

definition demo_plain_top :: dict where
  "demo_plain_top =
     [(''train_dataset'', VRef 3), (''val_dataset'', VRef 6), (''eval_type'', VStr ''f1''),
      (''model'', VRef 1), (''optimizer'', VRef 2), (''lr_min'', VNum (1 / 10 ^ 7)),
      (''epoch_max'', VInt 2)]"

definition demo_cells :: "addr \<Rightarrow> dict" where
  "demo_cells = demo_heap demo_top"

definition demo_store :: store where
  "demo_store = \<lparr>cells = demo_cells, nxt = 9\<rparr>"

definition demo_plain_store :: store where
  "demo_plain_store = \<lparr>cells = demo_heap demo_plain_top, nxt = 9\<rparr>"

text \<open>A batch, and the loop state before the first epoch.\<close>

definition demo_batch :: batch where
  "demo_batch = [(''inp'', [[0]]), (''gt'', [[1]])]"

definition demo_run :: "int run" where
  "demo_run = \<lparr>world = 0, heap = demo_store, max_val_v = init_max_val_v (VStr ''f1''), events = []\<rparr>"

text \<open>The outcomes of the epochs of the run on the full configuration (epochs 2 and 3,
  both validating, from the state with pretrained weights), and the loop state it ends
  with; the same for the plain configuration (epochs 1 and 2, no validation).\<close>

definition demo_outs :: "int out list" where
  "demo_outs =
     [Out 2 101 101 (Some ((1, 0, 0, 0), (''f1'', ''auc'', ''none'', ''none''), 101)),
      Out 3 102 102 (Some ((1, 0, 0, 0), (''f1'', ''auc'', ''none'', ''none''), 102))]"

definition demo_final :: "int run" where
  "demo_final =
     \<lparr>world = 102,
      heap = (start_store 0 demo_store)
               \<lparr>cells := with_sd demo_ext 102 1 2 (cells (start_store 0 demo_store))\<rparr>,
      max_val_v = 1,
      events = start_events 0 ''save'' demo_store
               @ run_events demo_ext (VStr ''f1'') 1 2 (cells (start_store 0 demo_store))
                   ''save'' 3 (- (10 ^ 18)) demo_outs\<rparr>"

definition demo_plain_outs :: "int out list" where
  "demo_plain_outs = [Out 1 1 1 None, Out 2 2 2 None]"

definition demo_plain_final :: "int run" where
  "demo_plain_final =
     \<lparr>world = 2,
      heap = (start_store 0 demo_plain_store)
               \<lparr>cells := with_sd demo_ext 2 1 2 (cells (start_store 0 demo_plain_store))\<rparr>,
      max_val_v = - (10 ^ 18),
      events = start_events 0 ''save'' demo_plain_store
               @ run_events demo_ext (VStr ''f1'') 1 2 (cells (start_store 0 demo_plain_store))
                   ''save'' 2 (- (10 ^ 18)) demo_plain_outs\<rparr>"

text \<open>Variants of the plain configuration: one that resumes after epoch 1, one with a
  checkpoint path under \<open>resume\<close>, and one whose \<open>optimizer\<close> entry is the mapping of its
  \<open>model\<close> entry (a YAML alias).\<close>

definition demo_resume_store :: store where
  "demo_resume_store =
     \<lparr>cells = demo_heap (demo_plain_top @ [(''resume'', VInt 1)]), nxt = 9\<rparr>"

definition demo_resume_path_store :: store where
  "demo_resume_path_store =
     \<lparr>cells = demo_heap (demo_plain_top @ [(''resume'', VStr ''save/model_last.pth'')]),
      nxt = 9\<rparr>"

definition demo_alias_store :: store where
  "demo_alias_store =
     \<lparr>cells = demo_heap [(''train_dataset'', VRef 3), (''eval_type'', VStr ''f1''),
                         (''model'', VRef 1), (''optimizer'', VRef 1), (''epoch_max'', VInt 2)],
      nxt = 9\<rparr>"

text \<open>What the model spec of a saved checkpoint holds under \<open>sd\<close>, and the epochs of a
  finished run.\<close>

definition checkpoint_model_sd :: "error + (store \<times> event) \<Rightarrow> val option" where
  "checkpoint_model_sd r =
     (case r of
        Inr (s, FileWrite d n (Checkpoint (VRef am) optimizer_spec c)) \<Rightarrow>
          Some (dict_get (c am) ''sd'')
      | _ \<Rightarrow> None)"

definition epochs_run_of :: "error + 'w run \<Rightarrow> error + int list" where
  "epochs_run_of r = (case r of Inl e \<Rightarrow> Inl e | Inr st \<Rightarrow> Inr (epochs_run (events st)))"

section \<open>Properties of one training epoch\<close>

lemma bind_res_Inr_iff: "bind_res m f = Inr y \<longleftrightarrow> (\<exists>x. m = Inr x \<and> f x = Inr y)"
  by (cases m) simp_all

lemma train_loop_ok:
  "list_all batch_ok bs \<Longrightarrow>
   train_loop X bs acc w =
     Inr (acc @ map (loss_G X) (states_after X w bs), foldl (opt_step X) w bs)"
proof (induction bs arbitrary: acc w)
  case Nil
  show ?case by simp
next
  case (Cons b bs)
  from Cons.prems have b: "batch_ok b" and bs: "list_all batch_ok bs" by simp_all
  from b obtain inp gt where i: "map_of b ''inp'' = Some inp" and g: "map_of b ''gt'' = Some gt"
    by (auto simp: batch_ok_def)
  show ?case
    using Cons.IH [OF bs] i g by (simp add: batch_get_def opt_step_def Let_def)
qed

lemma states_after_length: "length (states_after X w bs) = length bs"
  by (induction bs arbitrary: w) simp_all

lemma states_after_Nil_iff: "states_after X w bs = [] \<longleftrightarrow> bs = []"
  by (cases bs) simp_all

lemma train_returns:
  assumes "bs \<noteq> []" and "list_all batch_ok bs"
  shows "\<exists>r. train X (Some bs) w = Inr r"
  using assms train_loop_ok [OF assms(2), of X "[]" "model_train X w"]
  by (simp add: train_def mean_def Let_def states_after_Nil_iff)

text \<open>
  C9.  For a non-empty sequence of batches (each with its \<open>inp\<close> and \<open>gt\<close> fields), one
  training epoch takes the optimization step once per batch, in order, and returns the
  arithmetic mean of the losses read after each step.
\<close>

theorem train_mean_of_step_losses:
  assumes "bs \<noteq> []" and "list_all batch_ok bs"
  shows "train X (Some bs) w =
           Inr (sum_list (map (loss_G X) (states_after X (model_train X w) bs)) / real (length bs),
                foldl (opt_step X) (model_train X w) bs)"
  using assms train_loop_ok [OF assms(2), of X "[]" "model_train X w"]
  by (simp add: train_def mean_def Let_def states_after_length states_after_Nil_iff)

theorem train_mean_of_step_losses_witness:
  "[demo_batch, demo_batch] \<noteq> [] \<and> list_all batch_ok [demo_batch, demo_batch]
   \<and> train demo_ext (Some [demo_batch, demo_batch]) 0 = Inr (3 / 2, 2)"
  using train_mean_of_step_losses [of "[demo_batch, demo_batch]" demo_ext 0]
  by (simp add: batch_ok_def demo_batch_def demo_ext_def opt_step_def)

text \<open>
  C10.  With a loader that yields no batch, \<^verbatim>\<open>train\<close> raises the error of
  \<^verbatim>\<open>statistics.mean\<close> on an empty list; it returns no epoch loss.  So does every
  epoch of the driver in which the training loader yields no batch.
\<close>

theorem train_empty_loader_raises:
  "train X (Some []) w = Inl StatisticsError
   \<and> (draw train_loader epoch = Some [] \<longrightarrow>
        epoch_step X config save_path train_loader val_loader epoch_max epoch_val epoch st
          = Inl StatisticsError)"
  by (simp add: epoch_step_def train_def mean_def Let_def)

theorem train_empty_loader_raises_witness:
  "draw (Some (\<lambda>epoch. [])) 1 = Some []
   \<and> train demo_ext (Some []) 0 = Inl StatisticsError
   \<and> epoch_step demo_ext 0 ''save'' (Some (\<lambda>epoch. [])) None 2 VNone 1 demo_run
        = Inl StatisticsError"
  using train_empty_loader_raises
          [of demo_ext 0 "Some (\<lambda>epoch. [])" 1 0 "''save''" None 2 VNone demo_run]
  by (simp add: draw_def)

section \<open>Properties of validation\<close>

lemma eval_loop_ok:
  "list_all batch_ok bs \<Longrightarrow>
   eval_loop X bs pl gl w =
     Inr (pl @ map (\<lambda>b. torch_sigmoid X (infer X w (the (map_of b ''inp'')))) bs,
          gl @ map (\<lambda>b. the (map_of b ''gt'')) bs)"
proof (induction bs arbitrary: pl gl)
  case Nil
  show ?case by simp
next
  case (Cons b bs)
  from Cons.prems have b: "batch_ok b" and bs: "list_all batch_ok bs" by simp_all
  from b obtain inp gt where i: "map_of b ''inp'' = Some inp" and g: "map_of b ''gt'' = Some gt"
    by (auto simp: batch_ok_def)
  show ?case
    using Cons.IH [OF bs] i g by (simp add: batch_get_def Let_def)
qed

lemma eval_psnr_ok:
  assumes "bs \<noteq> []" and "list_all batch_ok bs"
  shows "eval_psnr X (Some bs) eval_type w =
           (case metric_bundle X eval_type of
              None \<Rightarrow> Inl UnboundLocalError
            | Some (metric_fn, names) \<Rightarrow>
                Inr (metric_fn (predictions X (model_eval X w) bs) (ground_truths bs),
                     names, model_eval X w))"
  using assms eval_loop_ok [OF assms(2), of X "[]" "[]" "model_eval X w"]
  by (simp add: eval_psnr_def Let_def torch_cat_def predictions_def ground_truths_def
           split: option.splits)

lemma eval_psnr_returns:
  assumes "bs \<noteq> []" and "list_all batch_ok bs"
    and "eval_type \<in> {VStr ''f1'', VStr ''fmeasure'', VStr ''ber'', VStr ''cod''}"
  shows "\<exists>r. eval_psnr X (Some bs) eval_type w = Inr r"
proof -
  from assms(3) obtain fn names where "metric_bundle X eval_type = Some (fn, names)"
    by (auto simp: metric_bundle_def)
  then have "eval_psnr X (Some bs) eval_type w =
      Inr (fn (predictions X (model_eval X w) bs) (ground_truths bs), names, model_eval X w)"
    by (simp add: eval_psnr_ok [OF assms(1,2)])
  then show ?thesis by (rule exI)
qed

lemma eval_psnr_Inr_bundle:
  "eval_psnr X loader eval_type w = Inr r \<Longrightarrow> metric_bundle X eval_type \<noteq> None"
  by (auto simp: eval_psnr_def Let_def bind_res_Inr_iff split: option.splits)

text \<open>
  C4.  The validation dispatcher knows exactly four evaluation types.  On a loader that
  yields at least one batch (each with its \<open>inp\<close> and \<open>gt\<close> fields), \<open>f1\<close> gives the names
  (f1, auc, none, none) and the score of \<open>calc_f1\<close>, \<open>fmeasure\<close> gives (f_mea, mae,
  none, none) and \<open>calc_fmeasure\<close>, \<open>ber\<close> gives (shadow, non_shadow, ber, none) and
  \<open>calc_ber\<close>, \<open>cod\<close> gives (sm, em, wfm, mae) and \<open>calc_cod\<close>; the metric function is
  applied to the concatenation of all predictions and of all ground truths; and no other
  evaluation type gives a result.
\<close>

theorem eval_psnr_four_bundles:
  assumes "bs \<noteq> []" and "list_all batch_ok bs"
  shows "eval_psnr X (Some bs) (VStr ''f1'') w =
           Inr (calc_f1 X (predictions X (model_eval X w) bs) (ground_truths bs),
                (''f1'', ''auc'', ''none'', ''none''), model_eval X w)
       \<and> eval_psnr X (Some bs) (VStr ''fmeasure'') w =
           Inr (calc_fmeasure X (predictions X (model_eval X w) bs) (ground_truths bs),
                (''f_mea'', ''mae'', ''none'', ''none''), model_eval X w)
       \<and> eval_psnr X (Some bs) (VStr ''ber'') w =
           Inr (calc_ber X (predictions X (model_eval X w) bs) (ground_truths bs),
                (''shadow'', ''non_shadow'', ''ber'', ''none''), model_eval X w)
       \<and> eval_psnr X (Some bs) (VStr ''cod'') w =
           Inr (calc_cod X (predictions X (model_eval X w) bs) (ground_truths bs),
                (''sm'', ''em'', ''wfm'', ''mae''), model_eval X w)
       \<and> ((\<exists>r. eval_psnr X (Some bs) eval_type w = Inr r) \<longleftrightarrow>
            eval_type \<in> {VStr ''f1'', VStr ''fmeasure'', VStr ''ber'', VStr ''cod''})"
proof -
  have ex4: "\<exists>a b c d. t = (a, b, c, d)" for t :: "real \<times> real \<times> real \<times> real"
    by (cases t) simp
  show ?thesis
    unfolding eval_psnr_ok [OF assms] by (simp add: metric_bundle_def ex4)
qed

theorem eval_psnr_four_bundles_witness:
  "[demo_batch, demo_batch] \<noteq> [] \<and> list_all batch_ok [demo_batch, demo_batch]
   \<and> eval_psnr demo_ext (Some [demo_batch, demo_batch]) (VStr ''ber'') 0 =
       Inr ((0, 0, 2, 0), (''shadow'', ''non_shadow'', ''ber'', ''none''), 0)"
  using eval_psnr_four_bundles [of "[demo_batch, demo_batch]" demo_ext 0 VNone]
  by (simp add: batch_ok_def demo_batch_def demo_ext_def predictions_def ground_truths_def)

text \<open>
  C5.  For an evaluation type outside f1, fmeasure, ber, cod (the default \<open>None\<close>
  included), \<open>eval_psnr\<close> never returns a result, and when it reaches the metric
  computation (the loader gave at least one batch, all well formed) the failure is the
  unbound-variable error.
\<close>

theorem eval_psnr_unknown_type:
  assumes "eval_type \<notin> {VStr ''f1'', VStr ''fmeasure'', VStr ''ber'', VStr ''cod''}"
  shows "eval_psnr X loader eval_type w \<noteq> Inr r
       \<and> (bs \<noteq> [] \<and> list_all batch_ok bs \<longrightarrow>
            eval_psnr X (Some bs) eval_type w = Inl UnboundLocalError)"
proof -
  from assms have none: "metric_bundle X eval_type = None"
    by (simp add: metric_bundle_def)
  have "eval_psnr X loader eval_type w \<noteq> Inr r"
    using eval_psnr_Inr_bundle [of X loader eval_type w r] none by blast
  moreover have "bs \<noteq> [] \<and> list_all batch_ok bs \<longrightarrow>
      eval_psnr X (Some bs) eval_type w = Inl UnboundLocalError"
    using none by (simp add: eval_psnr_ok)
  ultimately show ?thesis by simp
qed

theorem eval_psnr_unknown_type_witness:
  "VNone \<notin> {VStr ''f1'', VStr ''fmeasure'', VStr ''ber'', VStr ''cod''}
   \<and> [demo_batch] \<noteq> [] \<and> list_all batch_ok [demo_batch]
   \<and> eval_psnr demo_ext (Some [demo_batch]) VNone 0 = Inl UnboundLocalError"
  using eval_psnr_unknown_type [of VNone demo_ext "Some [demo_batch]" 0 "((0, 0, 0, 0), ([], [], [], []), 0)" "[demo_batch]"]
  by (simp add: batch_ok_def demo_batch_def)

section \<open>Dicts, checkpoint saves and the preparation of training\<close>

lemma map_of_dict_set: "map_of (dict_set k v d) = (map_of d)(k \<mapsto> v)"
  by (induction d) (auto simp: fun_eq_iff)

lemma dict_set_twice: "dict_set k v (dict_set k v' d) = dict_set k v d"
  by (induction d) auto

lemma dict_has_item: "dict_has d k \<longleftrightarrow> (\<exists>v. dict_item d k = Inr v)"
  by (auto simp: dict_has_def dict_item_def split: option.splits)

lemma dict_item_get: "dict_item d k = Inr v \<Longrightarrow> dict_get d k = v"
  by (auto simp: dict_get_def dict_item_def split: option.splits)

lemma map_of_with_sd:
  "k \<noteq> ''sd'' \<Longrightarrow> map_of (with_sd X w am ao c a) k = map_of (c a) k"
  by (simp add: with_sd_def Let_def map_of_dict_set)

lemma with_sd_other: "a \<noteq> am \<Longrightarrow> a \<noteq> ao \<Longrightarrow> with_sd X w am ao c a = c a"
  by (simp add: with_sd_def Let_def)

lemma with_sd_twice: "with_sd X w' am ao (with_sd X w am ao c) = with_sd X w' am ao c"
  by (auto simp: with_sd_def Let_def fun_eq_iff dict_set_twice)

lemma dict_item_with_sd:
  "k \<noteq> ''sd'' \<Longrightarrow> dict_item (with_sd X w am ao c a) k = dict_item (c a) k"
  by (simp add: dict_item_def map_of_with_sd)

lemma dict_get_with_sd:
  "k \<noteq> ''sd'' \<Longrightarrow> dict_get (with_sd X w am ao c a) k = dict_get (c a) k"
  by (simp add: dict_get_def map_of_with_sd)

lemma setitem_Inr: "setitem obj k v s = Inr s' \<longleftrightarrow>
    (\<exists>a. obj = VRef a \<and> s' = s\<lparr>cells := (cells s)(a := dict_set k v (cells s a))\<rparr>)"
  by (cases obj) (auto simp: setitem_def)

lemma save_model_Inr:
  "save_model X config w save_path name s = Inr r \<longleftrightarrow>
     (\<exists>am ao. dict_item (cells s config) ''model'' = Inr (VRef am)
            \<and> dict_item (cells s config) ''optimizer'' = Inr (VRef ao)
            \<and> r = (s\<lparr>cells := with_sd X w am ao (cells s)\<rparr>,
                   checkpoint_file X w am ao (cells s) save_path name))"
proof
  assume "save_model X config w save_path name s = Inr r"
  then obtain ms s1 os s2 where
    m: "dict_item (cells s config) ''model'' = Inr ms" and
    s1: "setitem ms ''sd'' (VSd (model_state_dict X w)) s = Inr s1" and
    o: "dict_item (cells s1 config) ''optimizer'' = Inr os" and
    s2: "setitem os ''sd'' (VSd (optimizer_state_dict X w)) s1 = Inr s2" and
    r: "r = (s2, FileWrite save_path (''model_'' @ name @ ''.pth'') (Checkpoint ms os (cells s2)))"
    unfolding save_model_def bind_res_Inr_iff by auto
  from s1 obtain am where am: "ms = VRef am"
    and s1': "s1 = s\<lparr>cells := (cells s)(am := dict_set ''sd'' (VSd (model_state_dict X w)) (cells s am))\<rparr>"
    unfolding setitem_Inr by auto
  from s2 obtain ao where ao: "os = VRef ao"
    and s2': "s2 = s1\<lparr>cells := (cells s1)(ao := dict_set ''sd'' (VSd (optimizer_state_dict X w)) (cells s1 ao))\<rparr>"
    unfolding setitem_Inr by auto
  have o': "dict_item (cells s config) ''optimizer'' = Inr (VRef ao)"
    using o ao s1' by (auto simp: dict_item_def map_of_dict_set split: if_splits)
  have "s2 = s\<lparr>cells := with_sd X w am ao (cells s)\<rparr>"
    using s1' s2' by (simp add: with_sd_def Let_def)
  with m am o' r ao show "\<exists>am ao. dict_item (cells s config) ''model'' = Inr (VRef am)
            \<and> dict_item (cells s config) ''optimizer'' = Inr (VRef ao)
            \<and> r = (s\<lparr>cells := with_sd X w am ao (cells s)\<rparr>,
                   checkpoint_file X w am ao (cells s) save_path name)"
    by (simp add: checkpoint_file_def)
next
  assume "\<exists>am ao. dict_item (cells s config) ''model'' = Inr (VRef am)
            \<and> dict_item (cells s config) ''optimizer'' = Inr (VRef ao)
            \<and> r = (s\<lparr>cells := with_sd X w am ao (cells s)\<rparr>,
                   checkpoint_file X w am ao (cells s) save_path name)"
  then obtain am ao where m: "dict_item (cells s config) ''model'' = Inr (VRef am)"
    and o: "dict_item (cells s config) ''optimizer'' = Inr (VRef ao)"
    and r: "r = (s\<lparr>cells := with_sd X w am ao (cells s)\<rparr>,
                   checkpoint_file X w am ao (cells s) save_path name)" by blast
  have o': "dict_item (((cells s)(am := dict_set ''sd'' (VSd (model_state_dict X w)) (cells s am))) config)
               ''optimizer'' = Inr (VRef ao)"
    using o by (auto simp: dict_item_def map_of_dict_set)
  show "save_model X config w save_path name s = Inr r"
    using m o' r
    by (simp add: save_model_def setitem_def checkpoint_file_def with_sd_def Let_def)
qed

lemma is_ref_iff: "is_ref r \<longleftrightarrow> (\<exists>a. r = Inr (VRef a))"
  by (cases r rule: is_ref.cases) simp_all

lemma nonzero_int_iff: "nonzero_int v \<longleftrightarrow> (\<exists>k. v = VInt k \<and> k \<noteq> 0)"
  by (cases v) simp_all

lemma save_model_returns:
  assumes "is_ref (dict_item (cells s config) ''model'')"
    and "is_ref (dict_item (cells s config) ''optimizer'')"
  shows "\<exists>r. save_model X config w save_path name s = Inr r"
  using assms unfolding is_ref_iff save_model_Inr by blast

lemma as_int_Inr: "as_int v = Inr n \<longleftrightarrow> v = VInt n"
  by (cases v) (auto simp: as_int_def)

lemma py_add1_as_int: "bind_res (py_add1 v) as_int = Inr n \<longleftrightarrow> v = VInt (n - 1)"
  by (cases v) (auto simp: py_add1_def as_int_def)

lemma py_add1_VInt: "py_add1 v = Inr (VInt n) \<longleftrightarrow> v = VInt (n - 1)"
  by (cases v) (auto simp: py_add1_def)

lemma prepare_training_Inr:
  assumes "prepare_training X s config = Inr (w, epoch_start)"
  shows "\<exists>model_spec optimizer_spec.
           dict_item (cells s config) ''model'' = Inr model_spec
         \<and> dict_item (cells s config) ''optimizer'' = Inr optimizer_spec
         \<and> w = cosine_annealing_lr X (dict_get (cells s config) ''epoch_max'')
                 (dict_get (cells s config) ''lr_min'')
                 (make_optimizer X (cells s) optimizer_spec (models_make X (cells s) model_spec))
         \<and> (if dict_get (cells s config) ''resume'' = VNone then epoch_start = VInt 1
             else py_add1 (dict_get (cells s config) ''resume'') = Inr epoch_start)"
proof -
  let ?c = "cells s config"
  from assms obtain ms where ms: "dict_item ?c ''model'' = Inr ms"
    by (cases "dict_item ?c ''model''") (simp_all add: prepare_training_def Let_def split: if_splits)
  from assms ms obtain os where os: "dict_item ?c ''optimizer'' = Inr os"
    by (cases "dict_item ?c ''optimizer''") (simp_all add: prepare_training_def Let_def split: if_splits)
  show ?thesis
  proof (cases "dict_get ?c ''resume'' = VNone")
    case True
    with assms ms os show ?thesis by (auto simp: prepare_training_def Let_def)
  next
    case False
    with assms ms os obtain es where "py_add1 (dict_get ?c ''resume'') = Inr es"
      by (cases "py_add1 (dict_get ?c ''resume'')") (simp_all add: prepare_training_def Let_def)
    with assms ms os False show ?thesis by (auto simp: prepare_training_def Let_def)
  qed
qed

section \<open>One iteration of the epoch loop\<close>

lemma validate_Inr:
  assumes "validate X config save_path val_loader epoch log_info st = Inr st'"
  shows "\<exists>r names w eval_type.
           eval_psnr X (draw val_loader epoch) (dict_get (cells (heap st) config) ''eval_type'')
             (world st) = Inr (r, names, w)
         \<and> dict_item (cells (heap st) config) ''eval_type'' = Inr eval_type
         \<and> (if improves eval_type (max_val_v st) r then
              \<exists>am ao. dict_item (cells (heap st) config) ''model'' = Inr (VRef am)
                    \<and> dict_item (cells (heap st) config) ''optimizer'' = Inr (VRef ao)
                    \<and> st' = \<lparr>world = w,
                              heap = (heap st)\<lparr>cells := with_sd X w am ao (cells (heap st))\<rparr>,
                              max_val_v = active_metric eval_type r,
                              events = events st @ val_scalars r names epoch
                                @ [checkpoint_file X w am ao (cells (heap st)) save_path ''best'']
                                @ [LogLine (log_info @ val_infos r names @ [TimeInfo]), Flush]\<rparr>
            else st' = \<lparr>world = w, heap = heap st, max_val_v = max_val_v st,
                        events = events st @ val_scalars r names epoch
                          @ [LogLine (log_info @ val_infos r names @ [TimeInfo]), Flush]\<rparr>)"
proof -
  let ?E = "eval_psnr X (draw val_loader epoch) (dict_get (cells (heap st) config) ''eval_type'')
              (world st)"
  let ?S = "save_model X config"
  from assms obtain x where ev: "?E = Inr x"
    by (cases ?E) (simp_all add: validate_def)
  obtain r1 r2 r3 r4 m1 m2 m3 m4 w where x: "x = ((r1, r2, r3, r4), (m1, m2, m3, m4), w)"
    by (metis prod_cases4 prod_cases3)
  from assms ev x obtain eval_type where
    et: "dict_item (cells (heap st) config) ''eval_type'' = Inr eval_type"
    by (cases "dict_item (cells (heap st) config) ''eval_type''") (simp_all add: validate_def)
  show ?thesis
  proof (cases "improves eval_type (max_val_v st) (r1, r2, r3, r4)")
    case True
    from assms ev x et True obtain sv where
      sv: "?S w save_path ''best'' (heap st) = Inr sv"
      by (cases "?S w save_path ''best'' (heap st)")
         (auto simp: validate_def improves_def split: if_splits)
    from sv obtain am ao where
      refs: "dict_item (cells (heap st) config) ''model'' = Inr (VRef am)"
            "dict_item (cells (heap st) config) ''optimizer'' = Inr (VRef ao)"
      and svv: "sv = ((heap st)\<lparr>cells := with_sd X w am ao (cells (heap st))\<rparr>,
                 checkpoint_file X w am ao (cells (heap st)) save_path ''best'')"
      unfolding save_model_Inr by auto
    from assms ev x et True sv svv
    have "st' = \<lparr>world = w,
                 heap = (heap st)\<lparr>cells := with_sd X w am ao (cells (heap st))\<rparr>,
                 max_val_v = active_metric eval_type (r1, r2, r3, r4),
                 events = events st @ val_scalars (r1, r2, r3, r4) (m1, m2, m3, m4) epoch
                   @ [checkpoint_file X w am ao (cells (heap st)) save_path ''best'']
                   @ [LogLine (log_info @ val_infos (r1, r2, r3, r4) (m1, m2, m3, m4) @ [TimeInfo]),
                      Flush]\<rparr>"
      by (auto simp: validate_def improves_def active_metric_def val_scalars_def val_infos_def
               split: if_splits)
    with ev x et True refs show ?thesis by (auto simp: active_metric_def)
  next
    case False
    from assms ev x et False
    have "st' = \<lparr>world = w, heap = heap st, max_val_v = max_val_v st,
                 events = events st @ val_scalars (r1, r2, r3, r4) (m1, m2, m3, m4) epoch
                   @ [LogLine (log_info @ val_infos (r1, r2, r3, r4) (m1, m2, m3, m4) @ [TimeInfo]),
                      Flush]\<rparr>"
      by (auto simp: validate_def improves_def val_scalars_def val_infos_def split: if_splits)
    with ev x et False show ?thesis by simp
  qed
qed

lemma epoch_step_Inr:
  assumes "epoch_step X config save_path train_loader val_loader epoch_max epoch_val epoch st = Inr st'"
  shows "\<exists>loss w1 am ao do_val.
           train X (draw train_loader epoch) (world st) = Inr (loss, w1)
         \<and> dict_item (cells (heap st) config) ''model'' = Inr (VRef am)
         \<and> dict_item (cells (heap st) config) ''optimizer'' = Inr (VRef ao)
         \<and> is_val_epoch epoch_val epoch = Inr do_val
         \<and> (let w2 = lr_scheduler_step X w1;
                 st1 = \<lparr>world = w2,
                        heap = (heap st)\<lparr>cells := with_sd X w2 am ao (cells (heap st))\<rparr>,
                        max_val_v = max_val_v st,
                        events = events st @
                          [AddScalar ''lr'' (current_lr X w2) epoch,
                           AddScalars ''loss'' ''train G'' loss epoch,
                           checkpoint_file X w2 am ao (cells (heap st)) save_path ''last'']\<rparr>
             in if do_val then
                  validate X config save_path val_loader epoch
                    [EpochInfo epoch epoch_max, TrainLoss loss] st1 = Inr st'
                else st' = st1)"
proof -
  let ?T = "train X (draw train_loader epoch) (world st)"
  from assms obtain x where trx: "?T = Inr x"
    by (cases ?T) (simp_all add: epoch_step_def)
  obtain loss w1 where x: "x = (loss, w1)" by (cases x)
  let ?w2 = "lr_scheduler_step X w1"
  let ?S = "save_model X config ?w2 save_path ''last'' (heap st)"
  from assms trx x obtain sv where sv: "?S = Inr sv"
    by (cases ?S) (simp_all add: epoch_step_def)
  from sv obtain am ao where
    refs: "dict_item (cells (heap st) config) ''model'' = Inr (VRef am)"
          "dict_item (cells (heap st) config) ''optimizer'' = Inr (VRef ao)"
    and svv: "sv = ((heap st)\<lparr>cells := with_sd X ?w2 am ao (cells (heap st))\<rparr>,
               checkpoint_file X ?w2 am ao (cells (heap st)) save_path ''last'')"
    unfolding save_model_Inr by auto
  from assms trx x sv svv obtain do_val where dv: "is_val_epoch epoch_val epoch = Inr do_val"
    by (cases "is_val_epoch epoch_val epoch") (simp_all add: epoch_step_def)
  from assms trx x sv svv dv
  have "let st1 = \<lparr>world = ?w2,
                   heap = (heap st)\<lparr>cells := with_sd X ?w2 am ao (cells (heap st))\<rparr>,
                   max_val_v = max_val_v st,
                   events = events st @
                     [AddScalar ''lr'' (current_lr X ?w2) epoch,
                      AddScalars ''loss'' ''train G'' loss epoch,
                      checkpoint_file X ?w2 am ao (cells (heap st)) save_path ''last'']\<rparr>
        in if do_val then
             validate X config save_path val_loader epoch
               [EpochInfo epoch epoch_max, TrainLoss loss] st1 = Inr st'
           else st' = st1"
    by (auto simp: epoch_step_def Let_def)
  with trx x refs dv show ?thesis by (simp add: Let_def)
qed

lemma epoch_step_result:
  assumes "epoch_step X config save_path train_loader val_loader epoch_max epoch_val epoch st = Inr st'"
  shows "\<exists>loss w1 am ao do_val.
           train X (draw train_loader epoch) (world st) = Inr (loss, w1)
         \<and> dict_item (cells (heap st) config) ''model'' = Inr (VRef am)
         \<and> dict_item (cells (heap st) config) ''optimizer'' = Inr (VRef ao)
         \<and> is_val_epoch epoch_val epoch = Inr do_val
         \<and> (\<not> do_val \<longrightarrow>
               st' = \<lparr>world = lr_scheduler_step X w1,
                      heap = (heap st)\<lparr>cells := with_sd X (lr_scheduler_step X w1) am ao (cells (heap st))\<rparr>,
                      max_val_v = max_val_v st,
                      events = events st @
                        [AddScalar ''lr'' (current_lr X (lr_scheduler_step X w1)) epoch,
                         AddScalars ''loss'' ''train G'' loss epoch,
                         checkpoint_file X (lr_scheduler_step X w1) am ao (cells (heap st)) save_path ''last'']\<rparr>)
         \<and> (do_val \<longrightarrow>
               (\<exists>r names w eval_type.
                  eval_psnr X (draw val_loader epoch)
                    (dict_get (cells (heap st) config) ''eval_type'')
                    (lr_scheduler_step X w1) = Inr (r, names, w)
                \<and> dict_item (cells (heap st) config) ''eval_type'' = Inr eval_type
                \<and> st' = \<lparr>world = w,
                          heap = (heap st)\<lparr>cells :=
                            with_sd X (if improves eval_type (max_val_v st) r then w
                                       else lr_scheduler_step X w1) am ao (cells (heap st))\<rparr>,
                          max_val_v = (if improves eval_type (max_val_v st) r
                                       then active_metric eval_type r else max_val_v st),
                          events = events st @
                            [AddScalar ''lr'' (current_lr X (lr_scheduler_step X w1)) epoch,
                             AddScalars ''loss'' ''train G'' loss epoch,
                             checkpoint_file X (lr_scheduler_step X w1) am ao (cells (heap st)) save_path ''last'']
                            @ val_scalars r names epoch
                            @ (if improves eval_type (max_val_v st) r
                               then [checkpoint_file X w am ao (cells (heap st)) save_path ''best'']
                               else [])
                            @ [LogLine ([EpochInfo epoch epoch_max, TrainLoss loss]
                                        @ val_infos r names @ [TimeInfo]), Flush]\<rparr>))"
proof -
  from epoch_step_Inr [OF assms] obtain loss w1 am ao do_val where
    tr: "train X (draw train_loader epoch) (world st) = Inr (loss, w1)"
    and rm: "dict_item (cells (heap st) config) ''model'' = Inr (VRef am)"
    and ro: "dict_item (cells (heap st) config) ''optimizer'' = Inr (VRef ao)"
    and dv: "is_val_epoch epoch_val epoch = Inr do_val"
    and rest: "let w2 = lr_scheduler_step X w1;
                 st1 = \<lparr>world = w2,
                        heap = (heap st)\<lparr>cells := with_sd X w2 am ao (cells (heap st))\<rparr>,
                        max_val_v = max_val_v st,
                        events = events st @
                          [AddScalar ''lr'' (current_lr X w2) epoch,
                           AddScalars ''loss'' ''train G'' loss epoch,
                           checkpoint_file X w2 am ao (cells (heap st)) save_path ''last'']\<rparr>
             in if do_val then
                  validate X config save_path val_loader epoch
                    [EpochInfo epoch epoch_max, TrainLoss loss] st1 = Inr st'
                else st' = st1"
    by blast
  let ?w2 = "lr_scheduler_step X w1"
  let ?c = "cells (heap st)"
  let ?ev1 = "events st @ [AddScalar ''lr'' (current_lr X ?w2) epoch,
                           AddScalars ''loss'' ''train G'' loss epoch,
                           checkpoint_file X ?w2 am ao ?c save_path ''last'']"
  let ?st1 = "\<lparr>world = ?w2, heap = (heap st)\<lparr>cells := with_sd X ?w2 am ao ?c\<rparr>,
               max_val_v = max_val_v st, events = ?ev1\<rparr>"
  have A: "\<not> do_val \<longrightarrow> st' = ?st1"
    using rest by (simp add: Let_def)
  have B: "do_val \<longrightarrow>
               (\<exists>r names w eval_type.
                  eval_psnr X (draw val_loader epoch) (dict_get (?c config) ''eval_type'') ?w2
                    = Inr (r, names, w)
                \<and> dict_item (?c config) ''eval_type'' = Inr eval_type
                \<and> st' = \<lparr>world = w,
                          heap = (heap st)\<lparr>cells :=
                            with_sd X (if improves eval_type (max_val_v st) r then w else ?w2)
                              am ao ?c\<rparr>,
                          max_val_v = (if improves eval_type (max_val_v st) r
                                       then active_metric eval_type r else max_val_v st),
                          events = ?ev1 @ val_scalars r names epoch
                            @ (if improves eval_type (max_val_v st) r
                               then [checkpoint_file X w am ao ?c save_path ''best'']
                               else [])
                            @ [LogLine ([EpochInfo epoch epoch_max, TrainLoss loss]
                                        @ val_infos r names @ [TimeInfo]), Flush]\<rparr>)"
  proof
    assume do_val
    with rest have v: "validate X config save_path val_loader epoch
                    [EpochInfo epoch epoch_max, TrainLoss loss] ?st1 = Inr st'"
      by (simp add: Let_def)
    have c1: "dict_item (with_sd X ?w2 am ao ?c config) ''eval_type'' = dict_item (?c config) ''eval_type''"
         "dict_get (with_sd X ?w2 am ao ?c config) ''eval_type'' = dict_get (?c config) ''eval_type''"
         "dict_item (with_sd X ?w2 am ao ?c config) ''model'' = Inr (VRef am)"
         "dict_item (with_sd X ?w2 am ao ?c config) ''optimizer'' = Inr (VRef ao)"
      using rm ro by (simp_all add: dict_get_with_sd dict_item_with_sd)
    from validate_Inr [OF v] show "\<exists>r names w eval_type.
                  eval_psnr X (draw val_loader epoch) (dict_get (?c config) ''eval_type'') ?w2
                    = Inr (r, names, w)
                \<and> dict_item (?c config) ''eval_type'' = Inr eval_type
                \<and> st' = \<lparr>world = w,
                          heap = (heap st)\<lparr>cells :=
                            with_sd X (if improves eval_type (max_val_v st) r then w else ?w2)
                              am ao ?c\<rparr>,
                          max_val_v = (if improves eval_type (max_val_v st) r
                                       then active_metric eval_type r else max_val_v st),
                          events = ?ev1 @ val_scalars r names epoch
                            @ (if improves eval_type (max_val_v st) r
                               then [checkpoint_file X w am ao ?c save_path ''best'']
                               else [])
                            @ [LogLine ([EpochInfo epoch epoch_max, TrainLoss loss]
                                        @ val_infos r names @ [TimeInfo]), Flush]\<rparr>"
      by (auto simp: c1 with_sd_twice checkpoint_file_def split: if_splits)
  qed
  from tr rm ro dv A B show ?thesis
    by (intro exI conjI) (assumption | simp)+
qed

lemma is_write_checkpoint_file [simp]: "is_write (checkpoint_file X w am ao c p n)"
  by (simp add: checkpoint_file_def)

lemma is_write_val_scalars [simp]: "filter is_write (val_scalars r names epoch) = []"
  by (cases r rule: prod_cases4, cases names rule: prod_cases4) (simp add: val_scalars_def)

lemma not_write_val_scalars [simp]:
  "filter (\<lambda>e. \<not> is_write e) (val_scalars r names epoch) = val_scalars r names epoch"
  by (cases r rule: prod_cases4, cases names rule: prod_cases4) (simp add: val_scalars_def)

lemma is_read_val_scalars [simp]: "filter is_read (val_scalars r names epoch) = []"
  by (cases r rule: prod_cases4, cases names rule: prod_cases4) (simp add: val_scalars_def)

lemma epochs_run_val_scalars [simp]: "epochs_run (val_scalars r names epoch) = []"
  by (cases r rule: prod_cases4, cases names rule: prod_cases4)
     (simp add: val_scalars_def epochs_run_def)

lemma epochs_run_append [simp]: "epochs_run (xs @ ys) = epochs_run xs @ epochs_run ys"
  by (simp add: epochs_run_def)

lemma epochs_run_Cons [simp]: "epochs_run (e # xs) = epoch_of_lr e @ epochs_run xs"
  by (simp add: epochs_run_def)

lemma epochs_run_Nil [simp]: "epochs_run [] = []"
  by (simp add: epochs_run_def)

lemma validate_returns:
  assumes ev: "eval_psnr X (draw val_loader epoch)
                 (dict_get (cells (heap st) config) ''eval_type'') (world st) = Inr x"
    and et: "dict_has (cells (heap st) config) ''eval_type''"
    and rm: "is_ref (dict_item (cells (heap st) config) ''model'')"
    and ro: "is_ref (dict_item (cells (heap st) config) ''optimizer'')"
  shows "\<exists>st'. validate X config save_path val_loader epoch log_info st = Inr st'"
proof -
  obtain r1 r2 r3 r4 m1 m2 m3 m4 w where x: "x = ((r1, r2, r3, r4), (m1, m2, m3, m4), w)"
    by (metis prod_cases4 prod_cases3)
  from et obtain eval_type where e: "dict_item (cells (heap st) config) ''eval_type'' = Inr eval_type"
    unfolding dict_has_item by blast
  from save_model_returns [OF rm ro, of X w save_path "''best''"] obtain sv where
    sv: "save_model X config w save_path ''best'' (heap st) = Inr sv" by blast
  obtain s' wr where svp: "sv = (s', wr)" by (cases sv)
  show ?thesis
    using ev x e sv svp by (simp add: validate_def)
qed

lemma epoch_step_returns:
  assumes rm: "is_ref (dict_item (cells (heap st) config) ''model'')"
    and ro: "is_ref (dict_item (cells (heap st) config) ''optimizer'')"
    and et: "dict_has (cells (heap st) config) ''eval_type''"
    and tl: "loader_ok train_loader [epoch]"
    and vl: "epoch_val = VNone
             \<or> nonzero_int epoch_val
               \<and> dict_get (cells (heap st) config) ''eval_type''
                   \<in> {VStr ''f1'', VStr ''fmeasure'', VStr ''ber'', VStr ''cod''}
               \<and> loader_ok val_loader [epoch]"
  shows "\<exists>st'. epoch_step X config save_path train_loader val_loader epoch_max epoch_val epoch st
           = Inr st'"
proof -
  from tl obtain f where f: "train_loader = Some f" "f epoch \<noteq> []" "list_all batch_ok (f epoch)"
    by (auto simp: loader_ok_def split: option.splits)
  from train_returns [OF f(2,3), of X "world st"] obtain loss w1 where
    tr: "train X (draw train_loader epoch) (world st) = Inr (loss, w1)"
    using f(1) by (auto simp: draw_def)
  let ?w2 = "lr_scheduler_step X w1"
  from rm ro obtain am ao where
    refs: "dict_item (cells (heap st) config) ''model'' = Inr (VRef am)"
          "dict_item (cells (heap st) config) ''optimizer'' = Inr (VRef ao)"
    unfolding is_ref_iff by blast
  have sv: "save_model X config ?w2 save_path ''last'' (heap st) =
              Inr ((heap st)\<lparr>cells := with_sd X ?w2 am ao (cells (heap st))\<rparr>,
                   checkpoint_file X ?w2 am ao (cells (heap st)) save_path ''last'')"
    unfolding save_model_Inr using refs by blast
  let ?st1 = "\<lparr>world = ?w2, heap = (heap st)\<lparr>cells := with_sd X ?w2 am ao (cells (heap st))\<rparr>,
               max_val_v = max_val_v st,
               events = (events st @ [AddScalar ''lr'' (current_lr X ?w2) epoch,
                           AddScalars ''loss'' ''train G'' loss epoch])
                        @ [checkpoint_file X ?w2 am ao (cells (heap st)) save_path ''last'']\<rparr>"
  from vl show ?thesis
  proof
    assume "epoch_val = VNone"
    with tr sv show ?thesis by (simp add: epoch_step_def is_val_epoch_def Let_def)
  next
    assume v: "nonzero_int epoch_val
               \<and> dict_get (cells (heap st) config) ''eval_type''
                   \<in> {VStr ''f1'', VStr ''fmeasure'', VStr ''ber'', VStr ''cod''}
               \<and> loader_ok val_loader [epoch]"
    then obtain k where k: "epoch_val = VInt k" "k \<noteq> 0" unfolding nonzero_int_iff by blast
    from v obtain g where g: "val_loader = Some g" "g epoch \<noteq> []" "list_all batch_ok (g epoch)"
      by (auto simp: loader_ok_def split: option.splits)
    from v have four: "dict_get (cells (heap st) config) ''eval_type''
                   \<in> {VStr ''f1'', VStr ''fmeasure'', VStr ''ber'', VStr ''cod''}" by simp
    from eval_psnr_returns [OF g(2,3) four, of X ?w2] obtain x where
      "eval_psnr X (Some (g epoch)) (dict_get (cells (heap st) config) ''eval_type'') ?w2 = Inr x"
      by blast
    then have ev: "eval_psnr X (draw val_loader epoch)
                 (dict_get (cells (heap ?st1) config) ''eval_type'') (world ?st1) = Inr x"
      using g(1) by (simp add: draw_def dict_get_with_sd)
    have et1: "dict_has (cells (heap ?st1) config) ''eval_type''"
      using et by (simp add: dict_has_def map_of_with_sd)
    have rm1: "is_ref (dict_item (cells (heap ?st1) config) ''model'')"
      using rm by (simp add: dict_item_with_sd)
    have ro1: "is_ref (dict_item (cells (heap ?st1) config) ''optimizer'')"
      using ro by (simp add: dict_item_with_sd)
    from validate_returns [OF ev et1 rm1 ro1] obtain st' where
      "validate X config save_path val_loader epoch
         [EpochInfo epoch epoch_max, TrainLoss loss] ?st1 = Inr st'"
      by blast
    with tr sv k show ?thesis
      by (simp add: epoch_step_def is_val_epoch_def Let_def)
  qed
qed

section \<open>The epoch loop and the driver\<close>

lemma loader_ok_Cons:
  "loader_ok l (e # es) \<longleftrightarrow> loader_ok l [e] \<and> loader_ok l es"
  by (auto simp: loader_ok_def split: option.splits)

lemma inject_data_norm_nxt: "nxt (inject_data_norm config s) = nxt s + 3"
  by (simp add: inject_data_norm_def alloc_def)

lemma inject_data_norm_other:
  "a < nxt s \<Longrightarrow> a \<noteq> config \<Longrightarrow> cells (inject_data_norm config s) a = cells s a"
  by (simp add: inject_data_norm_def alloc_def)

lemma inject_data_norm_config:
  "config < nxt s \<Longrightarrow>
   cells (inject_data_norm config s) config =
     dict_set ''data_norm'' (VRef (nxt s + 2)) (cells s config)"
  by (simp add: inject_data_norm_def alloc_def)

lemma inject_data_norm_new:
  "config < nxt s \<Longrightarrow>
     cells (inject_data_norm config s) (nxt s) = [(''sub'', VList [VInt 0]), (''div'', VList [VInt 1])]
   \<and> cells (inject_data_norm config s) (nxt s + 1) = [(''sub'', VList [VInt 0]), (''div'', VList [VInt 1])]
   \<and> cells (inject_data_norm config s) (nxt s + 2) = [(''inp'', VRef (nxt s)), (''gt'', VRef (nxt s + 1))]"
  by (simp add: inject_data_norm_def alloc_def)

lemma start_store_other:
  "a < nxt s \<Longrightarrow> a \<noteq> config \<Longrightarrow> cells (start_store config s) a = cells s a"
  by (simp add: start_store_def inject_data_norm_other)

lemma start_store_config:
  "config < nxt s \<Longrightarrow> k \<noteq> ''data_norm'' \<Longrightarrow>
   map_of (cells (start_store config s) config) k = map_of (cells s config) k"
  by (simp add: start_store_def inject_data_norm_config map_of_dict_set)

lemma start_store_item:
  "config < nxt s \<Longrightarrow> k \<noteq> ''data_norm'' \<Longrightarrow>
   dict_item (cells (start_store config s) config) k = dict_item (cells s config) k"
  by (simp add: dict_item_def start_store_config)

lemma start_store_get:
  "config < nxt s \<Longrightarrow> k \<noteq> ''data_norm'' \<Longrightarrow>
   dict_get (cells (start_store config s) config) k = dict_get (cells s config) k"
  by (simp add: dict_get_def start_store_config)

lemma start_store_has:
  "config < nxt s \<Longrightarrow> k \<noteq> ''data_norm'' \<Longrightarrow>
   dict_has (cells (start_store config s) config) k = dict_has (cells s config) k"
  by (simp add: dict_has_def start_store_config)

section \<open>The trace of a run\<close>

lemma checkpoint_file_with_sd:
  "checkpoint_file X w' am ao (with_sd X w am ao c) p n = checkpoint_file X w' am ao c p n"
  by (simp add: checkpoint_file_def with_sd_twice)

lemma out_events_with_sd:
  "out_events X et am ao (with_sd X w am ao c) p m b u = out_events X et am ao c p m b u"
  by (simp add: out_events_def checkpoint_file_with_sd split: option.splits)

lemma run_events_with_sd:
  "run_events X et am ao (with_sd X w am ao c) p m b us = run_events X et am ao c p m b us"
  by (induction us arbitrary: b) (simp_all add: out_events_with_sd)

lemma spec_addr_ref: "dict_item d k = Inr (VRef a) \<Longrightarrow> spec_addr d k = a"
  by (simp add: spec_addr_def dict_item_get)

lemma spec_addr_with_sd:
  "k \<noteq> ''sd'' \<Longrightarrow> spec_addr (with_sd X w am ao c a) k = spec_addr (c a) k"
  by (simp add: spec_addr_def dict_get_with_sd)

lemma epoch_step_out:
  assumes "epoch_step X config save_path train_loader val_loader epoch_max epoch_val epoch st = Inr st'"
  shows "\<exists>u. out_epoch u = epoch
           \<and> follows X train_loader val_loader (dict_get (cells (heap st) config) ''eval_type'')
                epoch_val (world st) [u]
           \<and> is_ref (dict_item (cells (heap st) config) ''model'')
           \<and> is_ref (dict_item (cells (heap st) config) ''optimizer'')
           \<and> st' = \<lparr>world = out_world X u,
                     heap = (heap st)\<lparr>cells :=
                       with_sd X (out_saved X (dict_get (cells (heap st) config) ''eval_type'')
                                    (max_val_v st) u)
                         (spec_addr (cells (heap st) config) ''model'')
                         (spec_addr (cells (heap st) config) ''optimizer'') (cells (heap st))\<rparr>,
                     max_val_v = next_best (dict_get (cells (heap st) config) ''eval_type'')
                                   (max_val_v st) u,
                     events = events st @
                       out_events X (dict_get (cells (heap st) config) ''eval_type'')
                         (spec_addr (cells (heap st) config) ''model'')
                         (spec_addr (cells (heap st) config) ''optimizer'') (cells (heap st))
                         save_path epoch_max (max_val_v st) u\<rparr>"
proof -
  let ?c = "cells (heap st)"
  let ?et = "dict_get (?c config) ''eval_type''"
  from epoch_step_result [OF assms] obtain loss w1 am ao do_val where
    tr: "train X (draw train_loader epoch) (world st) = Inr (loss, w1)"
    and rm: "dict_item (?c config) ''model'' = Inr (VRef am)"
    and ro: "dict_item (?c config) ''optimizer'' = Inr (VRef ao)"
    and dv: "is_val_epoch epoch_val epoch = Inr do_val"
    and A: "\<not> do_val \<longrightarrow>
               st' = \<lparr>world = lr_scheduler_step X w1,
                      heap = (heap st)\<lparr>cells := with_sd X (lr_scheduler_step X w1) am ao (cells (heap st))\<rparr>,
                      max_val_v = max_val_v st,
                      events = events st @
                        [AddScalar ''lr'' (current_lr X (lr_scheduler_step X w1)) epoch,
                         AddScalars ''loss'' ''train G'' loss epoch,
                         checkpoint_file X (lr_scheduler_step X w1) am ao (cells (heap st)) save_path ''last'']\<rparr>"
    and B: "do_val \<longrightarrow>
               (\<exists>r names w eval_type.
                  eval_psnr X (draw val_loader epoch)
                    (dict_get (cells (heap st) config) ''eval_type'')
                    (lr_scheduler_step X w1) = Inr (r, names, w)
                \<and> dict_item (cells (heap st) config) ''eval_type'' = Inr eval_type
                \<and> st' = \<lparr>world = w,
                          heap = (heap st)\<lparr>cells :=
                            with_sd X (if improves eval_type (max_val_v st) r then w
                                       else lr_scheduler_step X w1) am ao (cells (heap st))\<rparr>,
                          max_val_v = (if improves eval_type (max_val_v st) r
                                       then active_metric eval_type r else max_val_v st),
                          events = events st @
                            [AddScalar ''lr'' (current_lr X (lr_scheduler_step X w1)) epoch,
                             AddScalars ''loss'' ''train G'' loss epoch,
                             checkpoint_file X (lr_scheduler_step X w1) am ao (cells (heap st)) save_path ''last'']
                            @ val_scalars r names epoch
                            @ (if improves eval_type (max_val_v st) r
                               then [checkpoint_file X w am ao (cells (heap st)) save_path ''best'']
                               else [])
                            @ [LogLine ([EpochInfo epoch epoch_max, TrainLoss loss]
                                        @ val_infos r names @ [TimeInfo]), Flush]\<rparr>)"
    by blast
  have am: "spec_addr (?c config) ''model'' = am" using rm by (rule spec_addr_ref)
  have ao: "spec_addr (?c config) ''optimizer'' = ao" using ro by (rule spec_addr_ref)
  have refs: "is_ref (dict_item (?c config) ''model'')" "is_ref (dict_item (?c config) ''optimizer'')"
    using rm ro by simp_all
  show ?thesis
  proof (cases do_val)
    case False
    let ?u = "Out epoch loss w1 None"
    from False A tr dv refs show ?thesis
      by (intro exI [of _ ?u])
         (simp add: am ao out_world_def out_saved_def next_best_def out_events_def)
  next
    case True
    with B obtain r names w eval_type where
      ev: "eval_psnr X (draw val_loader epoch) ?et (lr_scheduler_step X w1) = Inr (r, names, w)"
      and et: "dict_item (?c config) ''eval_type'' = Inr eval_type"
      and st': "st' = \<lparr>world = w,
                          heap = (heap st)\<lparr>cells :=
                            with_sd X (if improves eval_type (max_val_v st) r then w
                                       else lr_scheduler_step X w1) am ao (cells (heap st))\<rparr>,
                          max_val_v = (if improves eval_type (max_val_v st) r
                                       then active_metric eval_type r else max_val_v st),
                          events = events st @
                            [AddScalar ''lr'' (current_lr X (lr_scheduler_step X w1)) epoch,
                             AddScalars ''loss'' ''train G'' loss epoch,
                             checkpoint_file X (lr_scheduler_step X w1) am ao (cells (heap st)) save_path ''last'']
                            @ val_scalars r names epoch
                            @ (if improves eval_type (max_val_v st) r
                               then [checkpoint_file X w am ao (cells (heap st)) save_path ''best'']
                               else [])
                            @ [LogLine ([EpochInfo epoch epoch_max, TrainLoss loss]
                                        @ val_infos r names @ [TimeInfo]), Flush]\<rparr>"
      by blast
    have e: "?et = eval_type" using et by (rule dict_item_get)
    let ?u = "Out epoch loss w1 (Some (r, names, w))"
    from True tr dv refs ev st' show ?thesis
      unfolding e
      by (intro exI [of _ ?u])
         (simp add: am ao out_world_def out_saved_def next_best_def out_events_def)
  qed
qed

lemma epoch_loop_trace:
  assumes "epoch_loop X config save_path train_loader val_loader epoch_max epoch_val es st = Inr st'"
  shows "\<exists>outs. map out_epoch outs = es
           \<and> follows X train_loader val_loader (dict_get (cells (heap st) config) ''eval_type'')
                epoch_val (world st) outs
           \<and> (es \<noteq> [] \<longrightarrow> is_ref (dict_item (cells (heap st) config) ''model'')
                          \<and> is_ref (dict_item (cells (heap st) config) ''optimizer''))
           \<and> st' = \<lparr>world = run_world X (world st) outs,
                     heap = (heap st)\<lparr>cells :=
                       run_cells X (dict_get (cells (heap st) config) ''eval_type'')
                         (spec_addr (cells (heap st) config) ''model'')
                         (spec_addr (cells (heap st) config) ''optimizer'') (cells (heap st))
                         (max_val_v st) outs\<rparr>,
                     max_val_v = run_best (dict_get (cells (heap st) config) ''eval_type'')
                                   (max_val_v st) outs,
                     events = events st @
                       run_events X (dict_get (cells (heap st) config) ''eval_type'')
                         (spec_addr (cells (heap st) config) ''model'')
                         (spec_addr (cells (heap st) config) ''optimizer'') (cells (heap st))
                         save_path epoch_max (max_val_v st) outs\<rparr>"
  using assms
proof (induction es arbitrary: st)
  case Nil
  then show ?case by (intro exI [of _ "[]"]) simp
next
  case (Cons e es)
  let ?c = "cells (heap st)"
  let ?et = "dict_get (?c config) ''eval_type''"
  let ?am = "spec_addr (?c config) ''model''"
  let ?ao = "spec_addr (?c config) ''optimizer''"
  from Cons.prems obtain st1 where
    s1: "epoch_step X config save_path train_loader val_loader epoch_max epoch_val e st = Inr st1"
    and l: "epoch_loop X config save_path train_loader val_loader epoch_max epoch_val es st1 = Inr st'"
    by (auto simp: bind_res_Inr_iff)
  from epoch_step_out [OF s1] obtain u where
    ue: "out_epoch u = e"
    and uf: "follows X train_loader val_loader ?et epoch_val (world st) [u]"
    and refs: "is_ref (dict_item (?c config) ''model'')" "is_ref (dict_item (?c config) ''optimizer'')"
    and st1: "st1 = \<lparr>world = out_world X u,
                     heap = (heap st)\<lparr>cells :=
                       with_sd X (out_saved X ?et (max_val_v st) u) ?am ?ao ?c\<rparr>,
                     max_val_v = next_best ?et (max_val_v st) u,
                     events = events st @
                       out_events X ?et ?am ?ao ?c save_path epoch_max (max_val_v st) u\<rparr>"
    by blast
  have c1: "cells (heap st1) = with_sd X (out_saved X ?et (max_val_v st) u) ?am ?ao ?c"
    and w1: "world st1 = out_world X u"
    and b1: "max_val_v st1 = next_best ?et (max_val_v st) u"
    and e1: "events st1 = events st @ out_events X ?et ?am ?ao ?c save_path epoch_max (max_val_v st) u"
    and h1: "heap st1 = (heap st)\<lparr>cells :=
                       with_sd X (out_saved X ?et (max_val_v st) u) ?am ?ao ?c\<rparr>"
    by (simp_all add: st1)
  have et1: "dict_get (cells (heap st1) config) ''eval_type'' = ?et"
    by (simp add: c1 dict_get_with_sd)
  have am1: "spec_addr (cells (heap st1) config) ''model'' = ?am"
    by (simp add: c1 spec_addr_with_sd)
  have ao1: "spec_addr (cells (heap st1) config) ''optimizer'' = ?ao"
    by (simp add: c1 spec_addr_with_sd)
  from Cons.IH [OF l] obtain outs where
    oe: "map out_epoch outs = es"
    and ofl: "follows X train_loader val_loader ?et epoch_val (out_world X u) outs"
    and st': "st' = \<lparr>world = run_world X (out_world X u) outs,
                     heap = (heap st1)\<lparr>cells :=
                       run_cells X ?et ?am ?ao (cells (heap st1)) (max_val_v st1) outs\<rparr>,
                     max_val_v = run_best ?et (max_val_v st1) outs,
                     events = events st1 @
                       run_events X ?et ?am ?ao (cells (heap st1)) save_path epoch_max
                         (max_val_v st1) outs\<rparr>"
    unfolding et1 am1 ao1 w1 by blast
  have "st' = \<lparr>world = run_world X (world st) (u # outs),
               heap = (heap st)\<lparr>cells := run_cells X ?et ?am ?ao ?c (max_val_v st) (u # outs)\<rparr>,
               max_val_v = run_best ?et (max_val_v st) (u # outs),
               events = events st @
                 run_events X ?et ?am ?ao ?c save_path epoch_max (max_val_v st) (u # outs)\<rparr>"
    unfolding st' by (simp add: h1 b1 e1 run_events_with_sd)
  with ue oe uf ofl refs show ?case
    by (intro exI [of _ "u # outs"]) simp
qed

lemma start_store_spec_addr:
  "config < nxt s \<Longrightarrow> k \<noteq> ''data_norm'' \<Longrightarrow>
   spec_addr (cells (start_store config s) config) k = spec_addr (cells s config) k"
  by (simp add: spec_addr_def start_store_get)

lemma torch_load_Inr: "torch_load f = Inr rd \<longleftrightarrow> is_path f \<and> rd = FileRead f"
  by (cases f) (auto simp: torch_load_def)

lemma main_start:
  "main X config save_path s =
     bind_res (make_data_loaders X s config) (\<lambda>(train_loader, val_loader).
     bind_res (prepare_training X (start_store config s) config) (\<lambda>(w, epoch_start).
     bind_res (dict_item (cells (start_store config s) config) ''epoch_max'') (\<lambda>t_max.
     bind_res
       (if dict_has (cells (start_store config s) config) ''sam_checkpoint'' then
          bind_res (torch_load (dict_get (cells (start_store config s) config) ''sam_checkpoint''))
            (\<lambda>rd.
            Inr (load_state_dict X
                   (dict_get (cells (start_store config s) config) ''sam_checkpoint'')
                   (cosine_annealing_lr X t_max
                      (dict_get (cells (start_store config s) config) ''lr_min'') w),
                 [rd]))
        else Inr (cosine_annealing_lr X t_max
                    (dict_get (cells (start_store config s) config) ''lr_min'') w, []))
       (\<lambda>(w2, ev1).
     bind_res (dict_item (cells (start_store config s) config) ''epoch_max'') (\<lambda>epoch_max.
     bind_res (dict_item (cells (start_store config s) config) ''eval_type'') (\<lambda>eval_type.
     bind_res (as_int epoch_start) (\<lambda>first.
     bind_res (bind_res (py_add1 epoch_max) as_int) (\<lambda>stop.
       epoch_loop X config save_path train_loader val_loader (stop - 1)
         (dict_get (cells (start_store config s) config) ''epoch_val'')
         [first..stop - 1]
         \<lparr>world = requires_grad_all X w2, heap = start_store config s,
          max_val_v = init_max_val_v eval_type,
          events = FileWrite save_path ''config.yaml'' (YamlDoc (VRef config) (cells s))
                   # ev1\<rparr>))))))))"
  unfolding main_def Let_def start_store_def [symmetric] by simp

lemma main_loop:
  assumes "main X config save_path s = Inr st"
  shows "\<exists>train_loader val_loader w first final eval_type.
           make_data_loaders X s config = Inr (train_loader, val_loader)
         \<and> prepare_training X (start_store config s) config = Inr (w, VInt first)
         \<and> dict_item (cells (start_store config s) config) ''epoch_max'' = Inr (VInt final)
         \<and> dict_item (cells (start_store config s) config) ''eval_type'' = Inr eval_type
         \<and> (dict_has (cells (start_store config s) config) ''sam_checkpoint'' \<longrightarrow>
               is_path (dict_get (cells (start_store config s) config) ''sam_checkpoint''))
         \<and> epoch_loop X config save_path train_loader val_loader
              final (dict_get (cells (start_store config s) config) ''epoch_val'')
              [first..final]
              \<lparr>world = start_world X (cells (start_store config s) config) w,
               heap = start_store config s,
               max_val_v = init_max_val_v eval_type,
               events = start_events config save_path s\<rparr> = Inr st"
proof -
  let ?s1 = "start_store config s"
  let ?c = "cells ?s1 config"
  note m = assms [unfolded main_start]
  from m obtain L where L: "make_data_loaders X s config = Inr L"
    by (cases "make_data_loaders X s config") simp_all
  obtain tl vl where Lp: "L = (tl, vl)" by (cases L)
  from m L Lp obtain p where p: "prepare_training X ?s1 config = Inr p"
    by (cases "prepare_training X ?s1 config") simp_all
  obtain w epoch_start where pw: "p = (w, epoch_start)" by (cases p)
  from m L Lp p pw obtain em where em: "dict_item ?c ''epoch_max'' = Inr em"
    by (cases "dict_item ?c ''epoch_max''") simp_all
  then have emg: "dict_get ?c ''epoch_max'' = em" by (rule dict_item_get)
  let ?w1 = "cosine_annealing_lr X em (dict_get ?c ''lr_min'') w"
  let ?ld = "if dict_has ?c ''sam_checkpoint'' then
               bind_res (torch_load (dict_get ?c ''sam_checkpoint'')) (\<lambda>rd.
                 Inr (load_state_dict X (dict_get ?c ''sam_checkpoint'') ?w1, [rd]))
             else Inr (?w1, [])"
  from m L Lp p pw em obtain q where q: "?ld = Inr q"
    by (cases ?ld) simp_all
  then have sam: "dict_has ?c ''sam_checkpoint'' \<longrightarrow> is_path (dict_get ?c ''sam_checkpoint'')"
    by (auto simp: bind_res_Inr_iff torch_load_Inr split: if_splits)
  from q sam have q': "q = (if dict_has ?c ''sam_checkpoint''
                then load_state_dict X (dict_get ?c ''sam_checkpoint'') ?w1 else ?w1,
              if dict_has ?c ''sam_checkpoint''
              then [FileRead (dict_get ?c ''sam_checkpoint'')] else [])"
    by (auto simp: bind_res_Inr_iff torch_load_Inr split: if_splits)
  from m L Lp p pw em q obtain et where et: "dict_item ?c ''eval_type'' = Inr et"
    by (cases "dict_item ?c ''eval_type''") (simp_all split: prod.splits)
  from m L Lp p pw em q et obtain first where f: "as_int epoch_start = Inr first"
    by (cases "as_int epoch_start") (simp_all split: prod.splits)
  from m L Lp p pw em q et f obtain stop where sp: "bind_res (py_add1 em) as_int = Inr stop"
    by (cases "bind_res (py_add1 em) as_int") (simp_all split: prod.splits)
  from sp have em': "em = VInt (stop - 1)" by (simp add: py_add1_as_int)
  from f have es': "epoch_start = VInt first" by (simp add: as_int_Inr)
  have "epoch_loop X config save_path tl vl (stop - 1) (dict_get ?c ''epoch_val'')
          [first..stop - 1]
          \<lparr>world = start_world X ?c w, heap = ?s1, max_val_v = init_max_val_v et,
           events = start_events config save_path s\<rparr> = Inr st"
    using m L Lp p pw em q et f sp
    by (simp add: q' emg start_events_def start_world_def Let_def)
  with L Lp p pw es' em em' et sam show ?thesis by blast
qed

lemma main_trace:
  assumes m: "main X config save_path s = Inr st" and cfg: "config < nxt s"
  shows "\<exists>first final outs.
           run_of X config s first final outs
         \<and> dict_has (cells s config) ''eval_type''
         \<and> (dict_has (cells s config) ''sam_checkpoint'' \<longrightarrow>
               is_path (dict_get (cells s config) ''sam_checkpoint''))
         \<and> (first \<le> final \<longrightarrow> is_ref (dict_item (cells s config) ''model'')
                              \<and> is_ref (dict_item (cells s config) ''optimizer''))
         \<and> st = \<lparr>world = run_world X (entry_world X (start_store config s) config) outs,
                  heap = (start_store config s)\<lparr>cells :=
                    run_cells X (dict_get (cells s config) ''eval_type'')
                      (spec_addr (cells s config) ''model'')
                      (spec_addr (cells s config) ''optimizer'')
                      (cells (start_store config s))
                      (init_max_val_v (dict_get (cells s config) ''eval_type'')) outs\<rparr>,
                  max_val_v = run_best (dict_get (cells s config) ''eval_type'')
                                (init_max_val_v (dict_get (cells s config) ''eval_type'')) outs,
                  events = start_events config save_path s @
                    run_events X (dict_get (cells s config) ''eval_type'')
                      (spec_addr (cells s config) ''model'')
                      (spec_addr (cells s config) ''optimizer'')
                      (cells (start_store config s)) save_path final
                      (init_max_val_v (dict_get (cells s config) ''eval_type'')) outs\<rparr>"
proof -
  let ?s1 = "start_store config s"
  let ?c1 = "cells ?s1 config"
  let ?c = "cells s config"
  from main_loop [OF m] obtain tl vl w first final eval_type where
    L: "make_data_loaders X s config = Inr (tl, vl)"
    and p: "prepare_training X ?s1 config = Inr (w, VInt first)"
    and em: "dict_item ?c1 ''epoch_max'' = Inr (VInt final)"
    and et: "dict_item ?c1 ''eval_type'' = Inr eval_type"
    and sam: "dict_has ?c1 ''sam_checkpoint'' \<longrightarrow> is_path (dict_get ?c1 ''sam_checkpoint'')"
    and l: "epoch_loop X config save_path tl vl final (dict_get ?c1 ''epoch_val'') [first..final]
              \<lparr>world = start_world X ?c1 w, heap = ?s1, max_val_v = init_max_val_v eval_type,
               events = start_events config save_path s\<rparr> = Inr st"
    by blast
  from prepare_training_Inr [OF p] obtain ms os where
    ms: "dict_item ?c1 ''model'' = Inr ms" and os: "dict_item ?c1 ''optimizer'' = Inr os"
    and w: "w = cosine_annealing_lr X (dict_get ?c1 ''epoch_max'') (dict_get ?c1 ''lr_min'')
                  (make_optimizer X (cells ?s1) os (models_make X (cells ?s1) ms))"
    and rs1: "if dict_get ?c1 ''resume'' = VNone then VInt first = VInt 1
              else py_add1 (dict_get ?c1 ''resume'') = Inr (VInt first)"
    by blast
  have ew: "start_world X ?c1 w = entry_world X ?s1 config"
    using dict_item_get [OF ms] dict_item_get [OF os] w by (simp add: entry_world_def Let_def)
  have etg1: "dict_get ?c1 ''eval_type'' = eval_type" using et by (rule dict_item_get)
  have etg: "dict_get ?c ''eval_type'' = eval_type"
    using etg1 cfg by (simp add: start_store_get)
  have rs: "if dict_get ?c ''resume'' = VNone then first = 1
            else dict_get ?c ''resume'' = VInt (first - 1)"
    using rs1 cfg by (auto simp: start_store_get py_add1_VInt split: if_splits)
  have em': "dict_item ?c ''epoch_max'' = Inr (VInt final)"
    using em cfg by (simp add: start_store_item)
  from epoch_loop_trace [OF l] obtain outs where
    oe: "map out_epoch outs = [first..final]"
    and fl: "follows X tl vl eval_type (dict_get ?c1 ''epoch_val'') (entry_world X ?s1 config) outs"
    and refs1: "[first..final] \<noteq> [] \<longrightarrow> is_ref (dict_item ?c1 ''model'')
                          \<and> is_ref (dict_item ?c1 ''optimizer'')"
    and st: "st = \<lparr>world = run_world X (entry_world X ?s1 config) outs,
                   heap = ?s1\<lparr>cells :=
                     run_cells X eval_type (spec_addr ?c1 ''model'') (spec_addr ?c1 ''optimizer'')
                       (cells ?s1) (init_max_val_v eval_type) outs\<rparr>,
                   max_val_v = run_best eval_type (init_max_val_v eval_type) outs,
                   events = start_events config save_path s @
                     run_events X eval_type (spec_addr ?c1 ''model'') (spec_addr ?c1 ''optimizer'')
                       (cells ?s1) save_path final (init_max_val_v eval_type) outs\<rparr>"
    by (auto simp: etg1 ew)
  have run: "run_of X config s first final outs"
    using L em' rs oe fl cfg by (simp add: run_of_def etg start_store_get)
  have has: "dict_has ?c ''eval_type''"
    using et cfg by (auto simp: dict_has_item start_store_item)
  have sam': "dict_has ?c ''sam_checkpoint'' \<longrightarrow> is_path (dict_get ?c ''sam_checkpoint'')"
    using sam cfg by (simp add: start_store_has start_store_get)
  have refs: "first \<le> final \<longrightarrow> is_ref (dict_item ?c ''model'') \<and> is_ref (dict_item ?c ''optimizer'')"
    using refs1 cfg by (simp add: start_store_item)
  have st': "st = \<lparr>world = run_world X (entry_world X ?s1 config) outs,
                  heap = ?s1\<lparr>cells :=
                    run_cells X (dict_get ?c ''eval_type'') (spec_addr ?c ''model'')
                      (spec_addr ?c ''optimizer'') (cells ?s1)
                      (init_max_val_v (dict_get ?c ''eval_type'')) outs\<rparr>,
                  max_val_v = run_best (dict_get ?c ''eval_type'')
                                (init_max_val_v (dict_get ?c ''eval_type'')) outs,
                  events = start_events config save_path s @
                    run_events X (dict_get ?c ''eval_type'') (spec_addr ?c ''model'')
                      (spec_addr ?c ''optimizer'') (cells ?s1) save_path final
                      (init_max_val_v (dict_get ?c ''eval_type'')) outs\<rparr>"
    using st cfg by (simp add: etg start_store_spec_addr)
  from run has sam' refs st' show ?thesis by blast
qed

section \<open>What a run leaves unchanged, and when it returns\<close>

lemma epoch_step_frame:
  assumes "epoch_step X config save_path train_loader val_loader epoch_max epoch_val epoch st = Inr st'"
  shows "\<exists>w am ao evs.
           dict_item (cells (heap st) config) ''model'' = Inr (VRef am)
         \<and> dict_item (cells (heap st) config) ''optimizer'' = Inr (VRef ao)
         \<and> heap st' = (heap st)\<lparr>cells := with_sd X w am ao (cells (heap st))\<rparr>
         \<and> events st' = events st @ evs
         \<and> filter is_read evs = []
         \<and> epochs_run evs = [epoch]"
proof -
  from epoch_step_result [OF assms] obtain loss w1 am ao do_val where
    rm: "dict_item (cells (heap st) config) ''model'' = Inr (VRef am)"
    and ro: "dict_item (cells (heap st) config) ''optimizer'' = Inr (VRef ao)"
    and A: "\<not> do_val \<longrightarrow>
               st' = \<lparr>world = lr_scheduler_step X w1,
                      heap = (heap st)\<lparr>cells := with_sd X (lr_scheduler_step X w1) am ao (cells (heap st))\<rparr>,
                      max_val_v = max_val_v st,
                      events = events st @
                        [AddScalar ''lr'' (current_lr X (lr_scheduler_step X w1)) epoch,
                         AddScalars ''loss'' ''train G'' loss epoch,
                         checkpoint_file X (lr_scheduler_step X w1) am ao (cells (heap st)) save_path ''last'']\<rparr>"
    and B: "do_val \<longrightarrow>
               (\<exists>r names w eval_type.
                  eval_psnr X (draw val_loader epoch)
                    (dict_get (cells (heap st) config) ''eval_type'')
                    (lr_scheduler_step X w1) = Inr (r, names, w)
                \<and> dict_item (cells (heap st) config) ''eval_type'' = Inr eval_type
                \<and> st' = \<lparr>world = w,
                          heap = (heap st)\<lparr>cells :=
                            with_sd X (if improves eval_type (max_val_v st) r then w
                                       else lr_scheduler_step X w1) am ao (cells (heap st))\<rparr>,
                          max_val_v = (if improves eval_type (max_val_v st) r
                                       then active_metric eval_type r else max_val_v st),
                          events = events st @
                            [AddScalar ''lr'' (current_lr X (lr_scheduler_step X w1)) epoch,
                             AddScalars ''loss'' ''train G'' loss epoch,
                             checkpoint_file X (lr_scheduler_step X w1) am ao (cells (heap st)) save_path ''last'']
                            @ val_scalars r names epoch
                            @ (if improves eval_type (max_val_v st) r
                               then [checkpoint_file X w am ao (cells (heap st)) save_path ''best'']
                               else [])
                            @ [LogLine ([EpochInfo epoch epoch_max, TrainLoss loss]
                                        @ val_infos r names @ [TimeInfo]), Flush]\<rparr>)"
    by blast
  have "\<exists>w evs. heap st' = (heap st)\<lparr>cells := with_sd X w am ao (cells (heap st))\<rparr>
         \<and> events st' = events st @ evs
         \<and> filter is_read evs = []
         \<and> epochs_run evs = [epoch]"
  proof (cases do_val)
    case False
    with A show ?thesis by (auto simp: checkpoint_file_def)
  next
    case True
    with B show ?thesis by (auto simp: checkpoint_file_def)
  qed
  with rm ro show ?thesis by blast
qed

lemma epoch_loop_frame:
  assumes "epoch_loop X config save_path train_loader val_loader epoch_max epoch_val es st = Inr st'"
  shows "nxt (heap st') = nxt (heap st)
       \<and> (\<forall>a k. k \<noteq> ''sd'' \<longrightarrow> map_of (cells (heap st') a) k = map_of (cells (heap st) a) k)
       \<and> (\<forall>a. dict_item (cells (heap st) config) ''model'' \<noteq> Inr (VRef a) \<longrightarrow>
              dict_item (cells (heap st) config) ''optimizer'' \<noteq> Inr (VRef a) \<longrightarrow>
              cells (heap st') a = cells (heap st) a)
       \<and> (\<exists>evs. events st' = events st @ evs \<and> filter is_read evs = [] \<and> epochs_run evs = es)"
  using assms
proof (induction es arbitrary: st)
  case Nil
  then show ?case by simp
next
  case (Cons e es)
  from Cons.prems obtain st1 where
    s1: "epoch_step X config save_path train_loader val_loader epoch_max epoch_val e st = Inr st1"
    and l: "epoch_loop X config save_path train_loader val_loader epoch_max epoch_val es st1 = Inr st'"
    by (auto simp: bind_res_Inr_iff)
  from epoch_step_frame [OF s1] obtain w am ao evs1 where
    rm: "dict_item (cells (heap st) config) ''model'' = Inr (VRef am)"
    and ro: "dict_item (cells (heap st) config) ''optimizer'' = Inr (VRef ao)"
    and h1: "heap st1 = (heap st)\<lparr>cells := with_sd X w am ao (cells (heap st))\<rparr>"
    and e1: "events st1 = events st @ evs1" "filter is_read evs1 = []" "epochs_run evs1 = [e]"
    by blast
  from Cons.IH [OF l] obtain evs2 where
    n2: "nxt (heap st') = nxt (heap st1)"
    and k2: "\<And>a k. k \<noteq> ''sd'' \<Longrightarrow> map_of (cells (heap st') a) k = map_of (cells (heap st1) a) k"
    and a2: "\<And>a. dict_item (cells (heap st1) config) ''model'' \<noteq> Inr (VRef a) \<Longrightarrow>
              dict_item (cells (heap st1) config) ''optimizer'' \<noteq> Inr (VRef a) \<Longrightarrow>
              cells (heap st') a = cells (heap st1) a"
    and e2: "events st' = events st1 @ evs2" "filter is_read evs2 = []" "epochs_run evs2 = es"
    by blast
  have n: "nxt (heap st') = nxt (heap st)" using n2 h1 by simp
  have k: "\<forall>a k. k \<noteq> ''sd'' \<longrightarrow> map_of (cells (heap st') a) k = map_of (cells (heap st) a) k"
    using k2 h1 by (simp add: map_of_with_sd)
  have a: "\<forall>a. dict_item (cells (heap st) config) ''model'' \<noteq> Inr (VRef a) \<longrightarrow>
              dict_item (cells (heap st) config) ''optimizer'' \<noteq> Inr (VRef a) \<longrightarrow>
              cells (heap st') a = cells (heap st) a"
  proof (intro allI impI)
    fix a
    assume nm: "dict_item (cells (heap st) config) ''model'' \<noteq> Inr (VRef a)"
      and no: "dict_item (cells (heap st) config) ''optimizer'' \<noteq> Inr (VRef a)"
    from nm rm have "a \<noteq> am" by auto
    moreover from no ro have "a \<noteq> ao" by auto
    ultimately have same: "cells (heap st1) a = cells (heap st) a"
      using h1 by (simp add: with_sd_other)
    have "dict_item (cells (heap st1) config) ''model'' \<noteq> Inr (VRef a)"
      using nm h1 by (simp add: dict_item_with_sd)
    moreover have "dict_item (cells (heap st1) config) ''optimizer'' \<noteq> Inr (VRef a)"
      using no h1 by (simp add: dict_item_with_sd)
    ultimately show "cells (heap st') a = cells (heap st) a"
      using a2 same by simp
  qed
  have ev: "\<exists>evs. events st' = events st @ evs \<and> filter is_read evs = []
              \<and> epochs_run evs = e # es"
    using e1 e2 by (intro exI [of _ "evs1 @ evs2"]) simp
  from n k a ev show ?case by (intro conjI)
qed

lemma epoch_loop_returns:
  assumes "is_ref (dict_item (cells (heap st) config) ''model'')"
    and "is_ref (dict_item (cells (heap st) config) ''optimizer'')"
    and "dict_has (cells (heap st) config) ''eval_type''"
    and "loader_ok train_loader es"
    and "epoch_val = VNone
             \<or> nonzero_int epoch_val
               \<and> dict_get (cells (heap st) config) ''eval_type''
                   \<in> {VStr ''f1'', VStr ''fmeasure'', VStr ''ber'', VStr ''cod''}
               \<and> loader_ok val_loader es"
  shows "\<exists>st'. epoch_loop X config save_path train_loader val_loader epoch_max epoch_val es st
           = Inr st'"
  using assms
proof (induction es arbitrary: st)
  case Nil
  show ?case by simp
next
  case (Cons e es)
  from Cons.prems(4) have tl1: "loader_ok train_loader [e]" and tl2: "loader_ok train_loader es"
    using loader_ok_Cons [of train_loader e es] by simp_all
  from Cons.prems(5) have vl1: "epoch_val = VNone
             \<or> nonzero_int epoch_val
               \<and> dict_get (cells (heap st) config) ''eval_type''
                   \<in> {VStr ''f1'', VStr ''fmeasure'', VStr ''ber'', VStr ''cod''}
               \<and> loader_ok val_loader [e]"
    using loader_ok_Cons [of val_loader e es] by blast
  from epoch_step_returns [OF Cons.prems(1,2,3) tl1 vl1] obtain st1 where
    s1: "epoch_step X config save_path train_loader val_loader epoch_max epoch_val e st = Inr st1"
    by blast
  from epoch_step_frame [OF s1] obtain w am ao where
    h1: "heap st1 = (heap st)\<lparr>cells := with_sd X w am ao (cells (heap st))\<rparr>"
    by blast
  have rm1: "is_ref (dict_item (cells (heap st1) config) ''model'')"
    using Cons.prems(1) h1 by (simp add: dict_item_with_sd)
  have ro1: "is_ref (dict_item (cells (heap st1) config) ''optimizer'')"
    using Cons.prems(2) h1 by (simp add: dict_item_with_sd)
  have et1: "dict_has (cells (heap st1) config) ''eval_type''"
    using Cons.prems(3) h1 by (simp add: dict_has_def map_of_with_sd)
  have vl2: "epoch_val = VNone
             \<or> nonzero_int epoch_val
               \<and> dict_get (cells (heap st1) config) ''eval_type''
                   \<in> {VStr ''f1'', VStr ''fmeasure'', VStr ''ber'', VStr ''cod''}
               \<and> loader_ok val_loader es"
    using Cons.prems(5) h1 loader_ok_Cons [of val_loader e es]
    by (auto simp: dict_get_with_sd)
  from Cons.IH [OF rm1 ro1 et1 tl2 vl2] obtain st' where
    "epoch_loop X config save_path train_loader val_loader epoch_max epoch_val es st1 = Inr st'"
    by blast
  with s1 show ?case by simp
qed

lemma epochs_run_start_events [simp]: "epochs_run (start_events config save_path s) = []"
  by (simp add: start_events_def)

lemma main_events:
  assumes "main X config save_path s = Inr st"
  shows "\<exists>evs. events st = start_events config save_path s @ evs \<and> filter is_read evs = []"
proof -
  from main_loop [OF assms] obtain tl vl w first final eval_type where
    "epoch_loop X config save_path tl vl
        final (dict_get (cells (start_store config s) config) ''epoch_val'')
        [first..final]
        \<lparr>world = start_world X (cells (start_store config s) config) w,
         heap = start_store config s,
         max_val_v = init_max_val_v eval_type,
         events = start_events config save_path s\<rparr> = Inr st"
    by blast
  from epoch_loop_frame [OF this] show ?thesis by auto
qed

lemma main_heap:
  assumes "main X config save_path s = Inr st"
  shows "nxt (heap st) = nxt (start_store config s)
       \<and> (\<forall>a k. k \<noteq> ''sd'' \<longrightarrow>
              map_of (cells (heap st) a) k = map_of (cells (start_store config s) a) k)
       \<and> (\<forall>a. dict_item (cells (start_store config s) config) ''model'' \<noteq> Inr (VRef a) \<longrightarrow>
              dict_item (cells (start_store config s) config) ''optimizer'' \<noteq> Inr (VRef a) \<longrightarrow>
              cells (heap st) a = cells (start_store config s) a)"
proof -
  from main_loop [OF assms] obtain tl vl w first final eval_type where
    "epoch_loop X config save_path tl vl
        final (dict_get (cells (start_store config s) config) ''epoch_val'')
        [first..final]
        \<lparr>world = start_world X (cells (start_store config s) config) w,
         heap = start_store config s,
         max_val_v = init_max_val_v eval_type,
         events = start_events config save_path s\<rparr> = Inr st"
    by blast
  from epoch_loop_frame [OF this] show ?thesis by simp
qed

lemma is_path_iff: "is_path v \<longleftrightarrow> (\<exists>p. v = VStr p)"
  by (cases v) simp_all

lemma main_returns:
  assumes cfg: "config < nxt s" and run: "runnable X config s first final"
  shows "\<exists>st'. main X config save_path s = Inr st'"
proof -
  let ?s1 = "start_store config s"
  let ?c = "cells s config"
  let ?c1 = "cells ?s1 config"
  from run have rm: "is_ref (dict_item ?c ''model'')" and ro: "is_ref (dict_item ?c ''optimizer'')"
    and em: "dict_item ?c ''epoch_max'' = Inr (VInt final)"
    and rs: "if dict_get ?c ''resume'' = VNone then first = 1
             else dict_get ?c ''resume'' = VInt (first - 1)"
    and et: "dict_has ?c ''eval_type''"
    and sam: "dict_has ?c ''sam_checkpoint'' \<longrightarrow> is_path (dict_get ?c ''sam_checkpoint'')"
    and lo: "loaders_ok (make_data_loaders X s config) (dict_get ?c ''epoch_val'' \<noteq> VNone)
               [first..final]"
    and vl: "dict_get ?c ''epoch_val'' = VNone
          \<or> nonzero_int (dict_get ?c ''epoch_val'')
            \<and> dict_get ?c ''eval_type'' \<in> {VStr ''f1'', VStr ''fmeasure'', VStr ''ber'', VStr ''cod''}"
    by (simp_all add: runnable_def Let_def)
  from lo obtain tl vl' where L: "make_data_loaders X s config = Inr (tl, vl')"
    and tlo: "loader_ok tl [first..final]"
    and vlo: "dict_get ?c ''epoch_val'' \<noteq> VNone \<longrightarrow> loader_ok vl' [first..final]"
    by (auto simp: loaders_ok_def split: sum.splits)
  have rm1: "is_ref (dict_item ?c1 ''model'')" using rm cfg by (simp add: start_store_item)
  have ro1: "is_ref (dict_item ?c1 ''optimizer'')" using ro cfg by (simp add: start_store_item)
  have em1: "dict_item ?c1 ''epoch_max'' = Inr (VInt final)" using em cfg by (simp add: start_store_item)
  have et1: "dict_has ?c1 ''eval_type''" using et cfg by (simp add: start_store_has)
  have rs1: "if dict_get ?c1 ''resume'' = VNone then first = 1
             else dict_get ?c1 ''resume'' = VInt (first - 1)"
    using rs cfg by (simp add: start_store_get)
  have sam1: "dict_has ?c1 ''sam_checkpoint'' \<longrightarrow> is_path (dict_get ?c1 ''sam_checkpoint'')"
    using sam cfg by (simp add: start_store_has start_store_get)
  have vl1: "dict_get ?c1 ''epoch_val'' = VNone
          \<or> nonzero_int (dict_get ?c1 ''epoch_val'')
            \<and> dict_get ?c1 ''eval_type'' \<in> {VStr ''f1'', VStr ''fmeasure'', VStr ''ber'', VStr ''cod''}
            \<and> loader_ok vl' [first..final]"
    using vl vlo cfg by (auto simp: start_store_get)
  from rm1 ro1 obtain ms os where
    ms: "dict_item ?c1 ''model'' = Inr ms" and os: "dict_item ?c1 ''optimizer'' = Inr os"
    unfolding is_ref_iff by blast
  from et1 obtain eval_type where e: "dict_item ?c1 ''eval_type'' = Inr eval_type"
    unfolding dict_has_item by blast
  have "\<exists>w. prepare_training X ?s1 config = Inr (w, VInt first)"
    using ms os rs1 by (auto simp: prepare_training_def Let_def py_add1_def split: if_splits)
  then obtain w where p: "prepare_training X ?s1 config = Inr (w, VInt first)" by blast
  have "\<exists>w3 ev. main X config save_path s =
          epoch_loop X config save_path tl vl' final (dict_get ?c1 ''epoch_val'')
            [first..final]
            \<lparr>world = w3, heap = ?s1, max_val_v = init_max_val_v eval_type, events = ev\<rparr>"
  proof (cases "dict_has ?c1 ''sam_checkpoint''")
    case False
    with L p em1 e show ?thesis
      unfolding main_start by (simp add: as_int_def py_add1_def) blast
  next
    case True
    with sam1 obtain pth where "dict_get ?c1 ''sam_checkpoint'' = VStr pth"
      unfolding is_path_iff by blast
    with True L p em1 e show ?thesis
      unfolding main_start by (simp add: as_int_def py_add1_def torch_load_def) blast
  qed
  then obtain w3 ev where m: "main X config save_path s =
          epoch_loop X config save_path tl vl' final (dict_get ?c1 ''epoch_val'')
            [first..final]
            \<lparr>world = w3, heap = ?s1, max_val_v = init_max_val_v eval_type, events = ev\<rparr>"
    by blast
  let ?st0 = "\<lparr>world = w3, heap = ?s1, max_val_v = init_max_val_v eval_type, events = ev\<rparr>"
  have "\<exists>st'. epoch_loop X config save_path tl vl' final (dict_get ?c1 ''epoch_val'')
            [first..final] ?st0 = Inr st'"
    by (rule epoch_loop_returns) (use rm1 ro1 et1 tlo vl1 in simp_all)
  with m show ?thesis by simp
qed

lemma file_writes_start_events:
  "file_writes (start_events config save_path s) =
     [FileWrite save_path ''config.yaml'' (YamlDoc (VRef config) (cells s))]"
  by (simp add: file_writes_def start_events_def)

lemma file_writes_out_events:
  "file_writes (out_events X et am ao c p m b u) = out_writes X et am ao c p b u"
  by (simp add: file_writes_def out_events_def out_writes_def split: option.splits)

lemma file_writes_append: "file_writes (xs @ ys) = file_writes xs @ file_writes ys"
  by (simp add: file_writes_def)

lemma file_writes_run_events:
  "file_writes (run_events X et am ao c p m b us) = run_writes X et am ao c p b us"
  by (induction us arbitrary: b) (simp_all add: file_writes_append file_writes_out_events, simp add: file_writes_def)

lemma is_ref_spec_addr: "is_ref (dict_item d k) \<Longrightarrow> dict_item d k = Inr (VRef (spec_addr d k))"
  by (auto simp: is_ref_iff spec_addr_ref)

lemma run_cells_nonempty:
  "us \<noteq> [] \<Longrightarrow> \<exists>w. run_cells X et am ao c b us = with_sd X w am ao c"
proof (induction us arbitrary: c b)
  case Nil
  then show ?case by simp
next
  case (Cons u us)
  show ?case
  proof (cases "us = []")
    case True
    then show ?thesis by auto
  next
    case False
    from Cons.IH [OF False] obtain w where
      "run_cells X et am ao (with_sd X (out_saved X et b u) am ao c) (next_best et b u) us
         = with_sd X w am ao (with_sd X (out_saved X et b u) am ao c)"
      by blast
    then show ?thesis by (auto simp: with_sd_twice)
  qed
qed

lemma run_of_epochs: "run_of X config s first final outs \<Longrightarrow> map out_epoch outs = [first..final]"
  by (simp add: run_of_def Let_def split: sum.splits prod.splits)

lemma upto_nonempty: "first \<le> final \<Longrightarrow> [first..final] \<noteq> []"
  by (simp add: upto.simps)

lemma start_events_reads:
  assumes "config < nxt s"
  shows "start_events config save_path s =
              FileWrite save_path ''config.yaml'' (YamlDoc (VRef config) (cells s))
              # (if dict_has (cells s config) ''sam_checkpoint''
                 then [FileRead (dict_get (cells s config) ''sam_checkpoint'')] else [])"
  using assms by (simp add: start_events_def start_store_has start_store_get)

section \<open>The runs of the small instance\<close>

lemma upto_2_3: "[2..3] = [2, 3::int]"
  by (simp add: upto.simps)

lemma upto_1_2: "[1..2] = [1, 2::int]"
  by (simp add: upto.simps)

lemma upto_2_2: "[2..2] = [2::int]"
  by (simp add: upto.simps)

lemmas demo_defs =
  make_data_loaders_def make_data_loader_def subscript_def prepare_training_def
  inject_data_norm_def alloc_def py_add1_def as_int_def dict_has_def torch_load_def
  epoch_step_def validate_def train_def eval_psnr_def save_model_def setitem_def
  dict_item_def dict_get_def is_val_epoch_def draw_def batch_get_def mean_def
  torch_cat_def metric_bundle_def init_max_val_v_def
  demo_store_def demo_plain_store_def demo_cells_def demo_heap_def demo_top_def
  demo_plain_top_def demo_ext_def

lemma demo_main: "main demo_ext 0 ''save'' demo_store = Inr demo_final"
  by (simp add: main_def demo_defs upto_2_3
        demo_final_def demo_outs_def start_store_def start_events_def out_events_def
        next_best_def improves_def active_metric_def val_scalars_def val_infos_def
        checkpoint_file_def with_sd_def Let_def)

lemma demo_plain_main: "main demo_ext 0 ''save'' demo_plain_store = Inr demo_plain_final"
  by (simp add: main_def demo_defs upto_1_2
        demo_plain_final_def demo_plain_outs_def start_store_def start_events_def
        out_events_def next_best_def checkpoint_file_def with_sd_def Let_def)

lemma demo_run_of: "run_of demo_ext 0 demo_store 2 3 demo_outs"
  by (simp add: run_of_def demo_defs upto_2_3 demo_outs_def entry_world_def start_world_def
        start_store_def out_world_def Let_def)

lemma demo_store_facts:
  "nxt demo_store = 9"
  "dict_get (cells demo_store 0) ''resume'' = VInt 1"
  "dict_has (cells demo_store 0) ''sam_checkpoint''"
  "dict_get (cells demo_store 0) ''sam_checkpoint'' = VStr ''pretrained/sam_vit_b.pth''"
  "dict_get (cells demo_store 0) ''data_norm'' = VNone"
  "dict_get (cells demo_store 0) ''eval_type'' = VStr ''f1''"
  "dict_item (cells demo_store 0) ''model'' = Inr (VRef 1)"
  "dict_item (cells demo_store 0) ''optimizer'' = Inr (VRef 2)"
  "dict_item (cells demo_store 0) ''epoch_max'' = Inr (VInt 3)"
  "cells demo_store (Suc 0) = [(''name'', VStr ''sam'')]"
  "cells demo_store 2 = [(''name'', VStr ''adamw'')]"
  "cells demo_store 4 = [(''name'', VStr ''paired-image-folders'')]"
  by (simp_all add: dict_get_def dict_item_def dict_has_def demo_store_def demo_cells_def
        demo_heap_def demo_top_def)

lemma demo_prepare: "prepare_training demo_ext demo_store 0 = Inr (0, VInt 2)"
  by (simp add: prepare_training_def py_add1_def dict_item_def dict_get_def
        demo_store_def demo_cells_def demo_heap_def demo_top_def demo_ext_def)

lemma demo_runnable: "runnable demo_ext 0 demo_store 2 3"
  by (simp add: runnable_def loaders_ok_def loader_ok_def
        make_data_loaders_def make_data_loader_def subscript_def
        dict_item_def dict_get_def dict_has_def batch_ok_def upto_2_3
        demo_store_def demo_cells_def demo_heap_def demo_top_def demo_ext_def Let_def)

lemma demo_start_cells:
  "cells (start_store 0 demo_store) =
     (cells demo_store)
       (9 := [(''sub'', VList [VInt 0]), (''div'', VList [VInt 1])],
        10 := [(''sub'', VList [VInt 0]), (''div'', VList [VInt 1])],
        11 := [(''inp'', VRef 9), (''gt'', VRef 10)],
        0 := cells demo_store 0 @ [(''data_norm'', VRef 11)])"
  by (simp add: start_store_def inject_data_norm_def alloc_def dict_get_def Let_def
        demo_store_def demo_cells_def demo_heap_def demo_top_def)

lemma demo_start_events:
  "start_events 0 ''save'' demo_store =
     [FileWrite ''save'' ''config.yaml'' (YamlDoc (VRef 0) (cells demo_store)),
      FileRead (VStr ''pretrained/sam_vit_b.pth'')]"
  by (simp add: start_events_reads demo_store_facts)

lemma demo_final_facts:
  "filter is_read (events demo_final) = [FileRead (VStr ''pretrained/sam_vit_b.pth'')]"
  "take 2 (events demo_final) =
        [FileWrite ''save'' ''config.yaml'' (YamlDoc (VRef 0) (cells demo_store)),
         FileRead (VStr ''pretrained/sam_vit_b.pth'')]"
  "hd (events demo_final) =
        FileWrite ''save'' ''config.yaml'' (YamlDoc (VRef 0) (cells demo_store))"
  "epochs_run (events demo_final) = [2, 3]"
  "cells (heap demo_final) = with_sd demo_ext 102 1 2 (cells (start_store 0 demo_store))"
  "max_val_v demo_final = 1"
  by (simp_all add: demo_final_def demo_start_events demo_outs_def out_events_def
        next_best_def improves_def active_metric_def val_scalars_def checkpoint_file_def
        epochs_run_def)

lemma demo_final_cells:
  "cells (heap demo_final) 4 = cells demo_store 4"
  "dict_get (cells (heap demo_final) 0) ''data_norm'' = VRef 11"
  "dict_get (cells (heap demo_final) 11) ''inp'' = VRef 9"
  "dict_get (cells (heap demo_final) 9) ''sub'' = VList [VInt 0]"
  "cells (heap demo_final) (Suc 0) =
     [(''name'', VStr ''sam''), (''sd'', VSd [(''weight'', [102])])]"
  "cells (heap demo_final) 2 = [(''name'', VStr ''adamw''), (''sd'', VSd [(''step'', [102])])]"
  unfolding demo_final_facts(5) demo_start_cells
  by (simp_all add: with_sd_def Let_def
        dict_get_def demo_ext_def demo_store_def demo_cells_def demo_heap_def demo_top_def)

section \<open>The driver: tracker, checkpoints, reads, configuration, log and termination\<close>

text \<open>
  C1 (as amended).  The best-metric tracker is one scalar carried across the epochs of a
  run.  Whatever the configuration, it starts at the finite sentinel \<open>-10^18\<close> when the
  active metric is maximized (every evaluation type other than \<open>ber\<close>) and at \<open>10^8\<close> when
  it is minimized (\<open>ber\<close>), and a run of \<^verbatim>\<open>main\<close> that returns ends with the value obtained
  from that start by going through its epochs in order: an epoch without validation leaves
  the tracker unchanged; a validation epoch changes it if and only if the new value of the
  active metric is a strict improvement on it, and then to that value.
\<close>

theorem best_metric_tracker:
  assumes "main X config save_path s = Inr st" and "config < nxt s"
  shows "init_max_val_v eval_type = (if eval_type = VStr ''ber'' then 10 ^ 8 else - (10 ^ 18))
       \<and> (\<exists>first final outs.
             run_of X config s first final outs
           \<and> max_val_v st =
               run_best (dict_get (cells s config) ''eval_type'')
                 (init_max_val_v (dict_get (cells s config) ''eval_type'')) outs)
       \<and> run_best eval_type best [] = best
       \<and> run_best eval_type best (Out epoch loss w None # outs') = run_best eval_type best outs'
       \<and> run_best eval_type best (Out epoch loss w (Some (r, names, w')) # outs') =
           run_best eval_type
             (if improves eval_type best r then active_metric eval_type r else best) outs'"
proof -
  from main_trace [OF assms] obtain first final outs where
    run: "run_of X config s first final outs"
    and st: "st = \<lparr>world = run_world X (entry_world X (start_store config s) config) outs,
           heap = start_store config s
              \<lparr>cells := run_cells X (dict_get (cells s config) ''eval_type'')
                  (spec_addr (cells s config) ''model'')
                  (spec_addr (cells s config) ''optimizer'')
                  (cells (start_store config s))
                  (init_max_val_v (dict_get (cells s config) ''eval_type'')) outs\<rparr>,
           max_val_v = run_best (dict_get (cells s config) ''eval_type'')
               (init_max_val_v (dict_get (cells s config) ''eval_type'')) outs,
           events = start_events config save_path s @
              run_events X (dict_get (cells s config) ''eval_type'')
               (spec_addr (cells s config) ''model'')
               (spec_addr (cells s config) ''optimizer'')
               (cells (start_store config s)) save_path final
               (init_max_val_v (dict_get (cells s config) ''eval_type'')) outs\<rparr>"
    by blast
  have mv: "max_val_v st =
               run_best (dict_get (cells s config) ''eval_type'')
                 (init_max_val_v (dict_get (cells s config) ''eval_type'')) outs"
    by (simp add: st)
  from run mv have "\<exists>first final outs.
             run_of X config s first final outs
           \<and> max_val_v st =
               run_best (dict_get (cells s config) ''eval_type'')
                 (init_max_val_v (dict_get (cells s config) ''eval_type'')) outs"
    by blast
  then show ?thesis by (simp add: init_max_val_v_def next_best_def)
qed

text \<open>The run on the full configuration: epoch 2 validates with \<open>f1 = 1\<close>, which improves
  on the sentinel; epoch 3 validates with the same value, which does not improve on 1.\<close>

theorem best_metric_tracker_witness:
  "main demo_ext 0 ''save'' demo_store = Inr demo_final \<and> (0::nat) < nxt demo_store
   \<and> run_of demo_ext 0 demo_store 2 3 demo_outs
   \<and> dict_get (cells demo_store 0) ''eval_type'' = VStr ''f1''
   \<and> max_val_v demo_final = run_best (VStr ''f1'') (init_max_val_v (VStr ''f1'')) demo_outs
   \<and> max_val_v demo_final = 1"
  using best_metric_tracker [OF demo_main] demo_main demo_run_of
  by (simp add: demo_final_def demo_outs_def next_best_def improves_def active_metric_def
        init_max_val_v_def dict_get_def demo_store_def demo_cells_def demo_heap_def demo_top_def)

text \<open>The tracker is not initialized to an infinity: for \<open>f1\<close> it starts below 0, so a
  first result of 0 already improves on it, and for \<open>ber\<close> it starts at \<open>10^8\<close>, so a first
  result of \<open>10^9\<close> does not.\<close>

theorem best_metric_tracker_counterexample:
  "init_max_val_v (VStr ''f1'') = - (10 ^ 18)
   \<and> improves (VStr ''f1'') (init_max_val_v (VStr ''f1'')) (0, 0, 0, 0)
   \<and> init_max_val_v (VStr ''ber'') = 10 ^ 8
   \<and> \<not> improves (VStr ''ber'') (init_max_val_v (VStr ''ber'')) (0, 0, 10 ^ 9, 0)"
  by (simp add: init_max_val_v_def improves_def)

text \<open>
  C2 (as amended).  The files written by a run of \<^verbatim>\<open>main\<close> that returns are \<open>config.yaml\<close>
  and then, for each epoch from the first to \<open>epoch_max\<close> in order, \<open>model_last.pth\<close>,
  followed by \<open>model_best.pth\<close> exactly when the epoch validates and its active metric
  strictly improves on the best value of the epochs before it.  A checkpoint holds the
  configuration's model spec and optimizer spec as they are after the save: the optimizer
  spec carries the optimizer's state dict under \<open>sd\<close>; the model spec carries the model's
  state dict under \<open>sd\<close> when the two specs are distinct mappings; every other key is as
  in the configuration.
\<close>

theorem checkpoints_per_epoch:
  assumes "main X config save_path s = Inr st" and "config < nxt s"
  shows "(\<exists>first final outs.
             run_of X config s first final outs
           \<and> file_writes (events st) =
               FileWrite save_path ''config.yaml'' (YamlDoc (VRef config) (cells s))
               # run_writes X (dict_get (cells s config) ''eval_type'')
                   (spec_addr (cells s config) ''model'') (spec_addr (cells s config) ''optimizer'')
                   (cells (start_store config s)) save_path
                   (init_max_val_v (dict_get (cells s config) ''eval_type'')) outs
           \<and> (first \<le> final \<longrightarrow>
                 dict_item (cells s config) ''model''
                   = Inr (VRef (spec_addr (cells s config) ''model''))
               \<and> dict_item (cells s config) ''optimizer''
                   = Inr (VRef (spec_addr (cells s config) ''optimizer''))))
       \<and> checkpoint_file X w am ao c p n =
           FileWrite p (''model_'' @ n @ ''.pth'')
             (Checkpoint (VRef am) (VRef ao) (with_sd X w am ao c))
       \<and> dict_get (with_sd X w am ao c ao) ''sd'' = VSd (optimizer_state_dict X w)
       \<and> (am \<noteq> ao \<longrightarrow> dict_get (with_sd X w am ao c am) ''sd'' = VSd (model_state_dict X w))
       \<and> (k \<noteq> ''sd'' \<longrightarrow> map_of (with_sd X w am ao c a) k = map_of (c a) k)
       \<and> run_writes X eval_type am ao c p best [] = []
       \<and> run_writes X eval_type am ao c p best (Out epoch loss w1 None # outs') =
           checkpoint_file X (lr_scheduler_step X w1) am ao c p ''last''
           # run_writes X eval_type am ao c p best outs'
       \<and> run_writes X eval_type am ao c p best (Out epoch loss w1 (Some (r, names, w2)) # outs') =
           checkpoint_file X (lr_scheduler_step X w1) am ao c p ''last''
           # (if improves eval_type best r
              then [checkpoint_file X w2 am ao c p ''best''] else [])
           @ run_writes X eval_type am ao c p
               (if improves eval_type best r then active_metric eval_type r else best) outs'"
proof -
  from main_trace [OF assms] obtain first final outs where
    run: "run_of X config s first final outs"
    and refs: "first \<le> final \<longrightarrow> is_ref (dict_item (cells s config) ''model'')
                              \<and> is_ref (dict_item (cells s config) ''optimizer'')"
    and st: "st = \<lparr>world = run_world X (entry_world X (start_store config s) config) outs,
           heap = start_store config s
              \<lparr>cells := run_cells X (dict_get (cells s config) ''eval_type'')
                  (spec_addr (cells s config) ''model'')
                  (spec_addr (cells s config) ''optimizer'')
                  (cells (start_store config s))
                  (init_max_val_v (dict_get (cells s config) ''eval_type'')) outs\<rparr>,
           max_val_v = run_best (dict_get (cells s config) ''eval_type'')
               (init_max_val_v (dict_get (cells s config) ''eval_type'')) outs,
           events = start_events config save_path s @
              run_events X (dict_get (cells s config) ''eval_type'')
               (spec_addr (cells s config) ''model'')
               (spec_addr (cells s config) ''optimizer'')
               (cells (start_store config s)) save_path final
               (init_max_val_v (dict_get (cells s config) ''eval_type'')) outs\<rparr>"
    by blast
  have ev: "events st = start_events config save_path s @
                    run_events X (dict_get (cells s config) ''eval_type'')
                      (spec_addr (cells s config) ''model'')
                      (spec_addr (cells s config) ''optimizer'')
                      (cells (start_store config s)) save_path final
                      (init_max_val_v (dict_get (cells s config) ''eval_type'')) outs"
    by (simp add: st)
  have fw: "file_writes (events st) =
               FileWrite save_path ''config.yaml'' (YamlDoc (VRef config) (cells s))
               # run_writes X (dict_get (cells s config) ''eval_type'')
                   (spec_addr (cells s config) ''model'') (spec_addr (cells s config) ''optimizer'')
                   (cells (start_store config s)) save_path
                   (init_max_val_v (dict_get (cells s config) ''eval_type'')) outs"
    by (simp add: ev file_writes_append file_writes_start_events file_writes_run_events)
  have rf: "first \<le> final \<longrightarrow>
                 dict_item (cells s config) ''model''
                   = Inr (VRef (spec_addr (cells s config) ''model''))
               \<and> dict_item (cells s config) ''optimizer''
                   = Inr (VRef (spec_addr (cells s config) ''optimizer''))"
    using refs is_ref_spec_addr by blast
  have A: "\<exists>first final outs.
             run_of X config s first final outs
           \<and> file_writes (events st) =
               FileWrite save_path ''config.yaml'' (YamlDoc (VRef config) (cells s))
               # run_writes X (dict_get (cells s config) ''eval_type'')
                   (spec_addr (cells s config) ''model'') (spec_addr (cells s config) ''optimizer'')
                   (cells (start_store config s)) save_path
                   (init_max_val_v (dict_get (cells s config) ''eval_type'')) outs
           \<and> (first \<le> final \<longrightarrow>
                 dict_item (cells s config) ''model''
                   = Inr (VRef (spec_addr (cells s config) ''model''))
               \<and> dict_item (cells s config) ''optimizer''
                   = Inr (VRef (spec_addr (cells s config) ''optimizer'')))"
    using run fw rf by blast
  have B: "checkpoint_file X w am ao c p n =
           FileWrite p (''model_'' @ n @ ''.pth'')
             (Checkpoint (VRef am) (VRef ao) (with_sd X w am ao c))"
    by (simp add: checkpoint_file_def)
  have C: "dict_get (with_sd X w am ao c ao) ''sd'' = VSd (optimizer_state_dict X w)"
    by (simp add: with_sd_def Let_def dict_get_def map_of_dict_set)
  have D: "am \<noteq> ao \<longrightarrow> dict_get (with_sd X w am ao c am) ''sd'' = VSd (model_state_dict X w)"
    by (simp add: with_sd_def Let_def dict_get_def map_of_dict_set)
  have E: "k \<noteq> ''sd'' \<longrightarrow> map_of (with_sd X w am ao c a) k = map_of (c a) k"
    by (simp add: map_of_with_sd)
  have F: "run_writes X eval_type am ao c p best [] = []"
    by simp
  have G: "run_writes X eval_type am ao c p best (Out epoch loss w1 None # outs') =
           checkpoint_file X (lr_scheduler_step X w1) am ao c p ''last''
           # run_writes X eval_type am ao c p best outs'"
    by (simp add: out_writes_def next_best_def)
  have H: "run_writes X eval_type am ao c p best (Out epoch loss w1 (Some (r, names, w2)) # outs') =
           checkpoint_file X (lr_scheduler_step X w1) am ao c p ''last''
           # (if improves eval_type best r
              then [checkpoint_file X w2 am ao c p ''best''] else [])
           @ run_writes X eval_type am ao c p
               (if improves eval_type best r then active_metric eval_type r else best) outs'"
    by (simp add: out_writes_def next_best_def)
  from A B C D E F G H show ?thesis by (intro conjI)
qed

text \<open>The run on the full configuration writes \<open>last\<close> and \<open>best\<close> in epoch 2 and only
  \<open>last\<close> in epoch 3, whose metric ties with the best so far.\<close>

theorem checkpoints_per_epoch_witness:
  "main demo_ext 0 ''save'' demo_store = Inr demo_final \<and> (0::nat) < nxt demo_store
   \<and> run_of demo_ext 0 demo_store 2 3 demo_outs \<and> (2::int) \<le> 3 \<and> (1::nat) \<noteq> 2
   \<and> ''name'' \<noteq> ''sd''
   \<and> file_writes (events demo_final) =
        [FileWrite ''save'' ''config.yaml'' (YamlDoc (VRef 0) (cells demo_store)),
         FileWrite ''save'' ''model_last.pth''
           (Checkpoint (VRef 1) (VRef 2) (with_sd demo_ext 101 1 2 (cells (start_store 0 demo_store)))),
         FileWrite ''save'' ''model_best.pth''
           (Checkpoint (VRef 1) (VRef 2) (with_sd demo_ext 101 1 2 (cells (start_store 0 demo_store)))),
         FileWrite ''save'' ''model_last.pth''
           (Checkpoint (VRef 1) (VRef 2) (with_sd demo_ext 102 1 2 (cells (start_store 0 demo_store))))]
   \<and> dict_get (with_sd demo_ext 101 1 2 (cells (start_store 0 demo_store)) 1) ''sd''
        = VSd [(''weight'', [101])]
   \<and> dict_get (with_sd demo_ext 101 1 2 (cells (start_store 0 demo_store)) 2) ''sd''
        = VSd [(''step'', [101])]
   \<and> map_of (with_sd demo_ext 101 1 2 (cells (start_store 0 demo_store)) 1) ''name''
        = Some (VStr ''sam'')"
  using checkpoints_per_epoch
          [OF demo_main, of 101 1 2 "cells (start_store 0 demo_store)" "''save''" "''last''"
             "''name''" 1]
    demo_main demo_run_of
  by (simp add: file_writes_def demo_final_def demo_outs_def start_events_def out_events_def
        next_best_def improves_def active_metric_def val_scalars_def checkpoint_file_def
        start_store_def inject_data_norm_def alloc_def dict_has_def dict_get_def
        demo_store_def demo_cells_def demo_heap_def demo_top_def demo_ext_def)

text \<open>In a configuration whose \<open>optimizer\<close> entry is the very mapping of its \<open>model\<close>
  entry, the second assignment of \<^verbatim>\<open>save_model\<close> overwrites the first: the model spec of
  the checkpoint carries the optimizer's state dict, not the model's.\<close>

theorem checkpoints_per_epoch_counterexample:
  "checkpoint_model_sd (save_model demo_ext 0 5 ''save'' ''last'' demo_alias_store) =
     Some (VSd (optimizer_state_dict demo_ext 5))
   \<and> optimizer_state_dict demo_ext 5 \<noteq> model_state_dict demo_ext 5"
  by (simp add: checkpoint_model_sd_def save_model_def setitem_def dict_item_def dict_get_def
        demo_alias_store_def demo_heap_def demo_ext_def)

text \<open>
  C3 (as amended).  No checkpoint is read back, with or without \<open>resume\<close>.  Preparing
  training builds the model and the optimizer from the specs in the configuration in the
  same way in both cases; \<open>resume\<close> only moves the first epoch from 1 to \<open>resume + 1\<close>.
  A run that returns on a configuration without the key \<open>sam_checkpoint\<close> reads no file;
  one on a configuration whose \<open>sam_checkpoint\<close> holds a path reads that file, once, right
  after writing \<open>config.yaml\<close> and before the first epoch, and nothing else.
\<close>

theorem resume_reads_no_checkpoint:
  assumes "config < nxt s"
  shows "(prepare_training X s config = Inr (w, epoch_start) \<longrightarrow>
           (\<exists>model_spec optimizer_spec.
              dict_item (cells s config) ''model'' = Inr model_spec
            \<and> dict_item (cells s config) ''optimizer'' = Inr optimizer_spec
            \<and> w = cosine_annealing_lr X (dict_get (cells s config) ''epoch_max'')
                    (dict_get (cells s config) ''lr_min'')
                    (make_optimizer X (cells s) optimizer_spec
                       (models_make X (cells s) model_spec))
            \<and> (if dict_get (cells s config) ''resume'' = VNone then epoch_start = VInt 1
                else py_add1 (dict_get (cells s config) ''resume'') = Inr epoch_start)))
       \<and> (main X config save_path s = Inr st \<longrightarrow>
            (\<not> dict_has (cells s config) ''sam_checkpoint'' \<longrightarrow> filter is_read (events st) = [])
          \<and> (dict_has (cells s config) ''sam_checkpoint'' \<longrightarrow>
                is_path (dict_get (cells s config) ''sam_checkpoint'')
              \<and> filter is_read (events st) =
                  [FileRead (dict_get (cells s config) ''sam_checkpoint'')]
              \<and> (\<exists>evs. events st =
                      [FileWrite save_path ''config.yaml'' (YamlDoc (VRef config) (cells s)),
                       FileRead (dict_get (cells s config) ''sam_checkpoint'')] @ evs
                   \<and> filter is_read evs = [])))"
proof (intro conjI impI)
  assume "prepare_training X s config = Inr (w, epoch_start)"
  from prepare_training_Inr [OF this]
  show "\<exists>model_spec optimizer_spec.
              dict_item (cells s config) ''model'' = Inr model_spec
            \<and> dict_item (cells s config) ''optimizer'' = Inr optimizer_spec
            \<and> w = cosine_annealing_lr X (dict_get (cells s config) ''epoch_max'')
                    (dict_get (cells s config) ''lr_min'')
                    (make_optimizer X (cells s) optimizer_spec
                       (models_make X (cells s) model_spec))
            \<and> (if dict_get (cells s config) ''resume'' = VNone then epoch_start = VInt 1
                else py_add1 (dict_get (cells s config) ''resume'') = Inr epoch_start)" .
next
  assume m: "main X config save_path s = Inr st"
    and no: "\<not> dict_has (cells s config) ''sam_checkpoint''"
  from main_events [OF m] obtain evs where
    ev: "events st = start_events config save_path s @ evs" and nr: "filter is_read evs = []"
    by blast
  show "filter is_read (events st) = []"
    using ev nr no by (simp add: start_events_reads [OF assms])
next
  assume m: "main X config save_path s = Inr st"
    and has: "dict_has (cells s config) ''sam_checkpoint''"
  from main_trace [OF m assms] has
  show "is_path (dict_get (cells s config) ''sam_checkpoint'')" by blast
next
  assume m: "main X config save_path s = Inr st"
    and has: "dict_has (cells s config) ''sam_checkpoint''"
  from main_events [OF m] obtain evs where
    ev: "events st = start_events config save_path s @ evs" and nr: "filter is_read evs = []"
    by blast
  show "filter is_read (events st) = [FileRead (dict_get (cells s config) ''sam_checkpoint'')]"
    using ev nr has by (simp add: start_events_reads [OF assms])
next
  assume m: "main X config save_path s = Inr st"
    and has: "dict_has (cells s config) ''sam_checkpoint''"
  from main_events [OF m] obtain evs where
    ev: "events st = start_events config save_path s @ evs" and nr: "filter is_read evs = []"
    by blast
  show "\<exists>evs. events st =
                      [FileWrite save_path ''config.yaml'' (YamlDoc (VRef config) (cells s)),
                       FileRead (dict_get (cells s config) ''sam_checkpoint'')] @ evs
                   \<and> filter is_read evs = []"
    using ev nr has by (intro exI [of _ evs]) (simp add: start_events_reads [OF assms])
qed

text \<open>The full configuration resumes after epoch 1 and names pretrained weights: the
  state prepared is the freshly built one, and the only read of the run is that of the
  pretrained weights.\<close>

theorem resume_reads_no_checkpoint_witness:
  "(0::nat) < nxt demo_store
   \<and> dict_get (cells demo_store 0) ''resume'' = VInt 1
   \<and> dict_has (cells demo_store 0) ''sam_checkpoint''
   \<and> prepare_training demo_ext demo_store 0 = Inr (0, VInt 2)
   \<and> dict_item (cells demo_store 0) ''model'' = Inr (VRef 1)
   \<and> dict_item (cells demo_store 0) ''optimizer'' = Inr (VRef 2)
   \<and> py_add1 (VInt 1) = Inr (VInt 2)
   \<and> main demo_ext 0 ''save'' demo_store = Inr demo_final
   \<and> filter is_read (events demo_final) = [FileRead (VStr ''pretrained/sam_vit_b.pth'')]
   \<and> take 2 (events demo_final) =
        [FileWrite ''save'' ''config.yaml'' (YamlDoc (VRef 0) (cells demo_store)),
         FileRead (VStr ''pretrained/sam_vit_b.pth'')]"
  using resume_reads_no_checkpoint [of 0 demo_store demo_ext 0 "VInt 2" "''save''" demo_final]
  by (simp add: demo_main demo_prepare demo_store_facts demo_final_facts py_add1_def)

text \<open>With \<open>resume\<close> set to 1 the prepared state is the freshly built one, as without
  \<open>resume\<close>; the whole run reads no file, and its one epoch (epoch 2) trains from that
  state: the loss it records is that of the first optimization step.  With \<open>resume\<close> set
  to a checkpoint path preparing training raises a type error.\<close>

theorem resume_reads_no_checkpoint_counterexample:
  "prepare_training demo_ext demo_resume_store 0 = Inr (0, VInt 2)
   \<and> prepare_training demo_ext demo_plain_store 0 = Inr (0, VInt 1)
   \<and> run_reads (main demo_ext 0 ''save'' demo_resume_store) = Inr []
   \<and> run_log (main demo_ext 0 ''save'' demo_resume_store) =
       Inr [AddScalar ''lr'' 1 2, AddScalars ''loss'' ''train G'' 1 2]
   \<and> prepare_training demo_ext demo_resume_path_store 0 = Inl TypeError"
  by (simp add: run_reads_def run_log_def scalars_and_logs_def main_def demo_defs
        demo_resume_store_def demo_resume_path_store_def upto_2_2 Let_def)

text \<open>
  C6 (as amended).  \<open>config.yaml\<close> is written first and holds the configuration as it
  was loaded.  During the run the configuration changes in two ways only: the default
  \<open>data_norm\<close> structure is stored under that key when it was absent, and every
  checkpoint save stores the state dicts under the key \<open>sd\<close> of the model spec and of the
  optimizer spec, so that after a run of at least one epoch the two specs carry the state
  dicts of the last save.  Every other key of every mapping keeps its value, and every
  mapping other than the top-level one and the two specs is unchanged.
\<close>

theorem config_mutations:
  assumes "main X config save_path s = Inr st" and "config < nxt s"
  shows "hd (events st) = FileWrite save_path ''config.yaml'' (YamlDoc (VRef config) (cells s))
       \<and> (a < nxt s \<longrightarrow> k \<noteq> ''sd'' \<longrightarrow>
            (a = config \<and> k = ''data_norm'' \<longrightarrow> dict_get (cells s config) ''data_norm'' \<noteq> VNone) \<longrightarrow>
            map_of (cells (heap st) a) k = map_of (cells s a) k)
       \<and> (a < nxt s \<longrightarrow> a \<noteq> config \<longrightarrow>
            dict_item (cells s config) ''model'' \<noteq> Inr (VRef a) \<longrightarrow>
            dict_item (cells s config) ''optimizer'' \<noteq> Inr (VRef a) \<longrightarrow>
            cells (heap st) a = cells s a)
       \<and> (dict_get (cells s config) ''data_norm'' = VNone \<longrightarrow>
            dict_get (cells (heap st) config) ''data_norm'' = VRef (nxt s + 2)
          \<and> dict_get (cells (heap st) (nxt s + 2)) ''inp'' = VRef (nxt s)
          \<and> dict_get (cells (heap st) (nxt s + 2)) ''gt'' = VRef (nxt s + 1)
          \<and> dict_get (cells (heap st) (nxt s)) ''sub'' = VList [VInt 0]
          \<and> dict_get (cells (heap st) (nxt s)) ''div'' = VList [VInt 1]
          \<and> dict_get (cells (heap st) (nxt s + 1)) ''sub'' = VList [VInt 0]
          \<and> dict_get (cells (heap st) (nxt s + 1)) ''div'' = VList [VInt 1])
       \<and> (\<exists>first final outs.
             run_of X config s first final outs
           \<and> cells (heap st) =
               run_cells X (dict_get (cells s config) ''eval_type'')
                 (spec_addr (cells s config) ''model'') (spec_addr (cells s config) ''optimizer'')
                 (cells (start_store config s))
                 (init_max_val_v (dict_get (cells s config) ''eval_type'')) outs
           \<and> (first \<le> final \<longrightarrow>
                 dict_item (cells s config) ''model''
                   = Inr (VRef (spec_addr (cells s config) ''model''))
               \<and> dict_item (cells s config) ''optimizer''
                   = Inr (VRef (spec_addr (cells s config) ''optimizer''))
               \<and> (\<exists>w. cells (heap st) =
                        with_sd X w (spec_addr (cells s config) ''model'')
                          (spec_addr (cells s config) ''optimizer'')
                          (cells (start_store config s))
                     \<and> dict_get (cells (heap st) (spec_addr (cells s config) ''optimizer''))
                         ''sd'' = VSd (optimizer_state_dict X w)
                     \<and> (spec_addr (cells s config) ''model''
                          \<noteq> spec_addr (cells s config) ''optimizer'' \<longrightarrow>
                        dict_get (cells (heap st) (spec_addr (cells s config) ''model''))
                          ''sd'' = VSd (model_state_dict X w)))))"
proof -
  from main_events [OF assms(1)] have hd: "hd (events st) =
      FileWrite save_path ''config.yaml'' (YamlDoc (VRef config) (cells s))"
    by (auto simp: start_events_def)
  from main_heap [OF assms(1)] have
    keys: "\<And>a k. k \<noteq> ''sd'' \<Longrightarrow>
              map_of (cells (heap st) a) k = map_of (cells (start_store config s) a) k"
    and others: "\<And>a. dict_item (cells (start_store config s) config) ''model'' \<noteq> Inr (VRef a) \<Longrightarrow>
              dict_item (cells (start_store config s) config) ''optimizer'' \<noteq> Inr (VRef a) \<Longrightarrow>
              cells (heap st) a = cells (start_store config s) a"
    by blast+
  have P1: "a < nxt s \<longrightarrow> k \<noteq> ''sd'' \<longrightarrow>
            (a = config \<and> k = ''data_norm'' \<longrightarrow> dict_get (cells s config) ''data_norm'' \<noteq> VNone) \<longrightarrow>
            map_of (cells (heap st) a) k = map_of (cells s a) k"
  proof (intro impI)
    assume a: "a < nxt s" and k: "k \<noteq> ''sd''"
      and dn: "a = config \<and> k = ''data_norm'' \<longrightarrow> dict_get (cells s config) ''data_norm'' \<noteq> VNone"
    have "map_of (cells (start_store config s) a) k = map_of (cells s a) k"
    proof (cases "a = config")
      case False
      with a show ?thesis by (simp add: start_store_other)
    next
      case True
      show ?thesis
      proof (cases "k = ''data_norm''")
        case False
        with True assms(2) show ?thesis by (simp add: start_store_config)
      next
        case kd: True
        with True dn show ?thesis by (simp add: start_store_def)
      qed
    qed
    with keys [OF k] show "map_of (cells (heap st) a) k = map_of (cells s a) k" by simp
  qed
  have P2: "a < nxt s \<longrightarrow> a \<noteq> config \<longrightarrow>
            dict_item (cells s config) ''model'' \<noteq> Inr (VRef a) \<longrightarrow>
            dict_item (cells s config) ''optimizer'' \<noteq> Inr (VRef a) \<longrightarrow>
            cells (heap st) a = cells s a"
    using others [of a] assms(2) by (simp add: start_store_item start_store_other)
  have P3: "dict_get (cells s config) ''data_norm'' = VNone \<longrightarrow>
            dict_get (cells (heap st) config) ''data_norm'' = VRef (nxt s + 2)
          \<and> dict_get (cells (heap st) (nxt s + 2)) ''inp'' = VRef (nxt s)
          \<and> dict_get (cells (heap st) (nxt s + 2)) ''gt'' = VRef (nxt s + 1)
          \<and> dict_get (cells (heap st) (nxt s)) ''sub'' = VList [VInt 0]
          \<and> dict_get (cells (heap st) (nxt s)) ''div'' = VList [VInt 1]
          \<and> dict_get (cells (heap st) (nxt s + 1)) ''sub'' = VList [VInt 0]
          \<and> dict_get (cells (heap st) (nxt s + 1)) ''div'' = VList [VInt 1]"
    using assms(2) inject_data_norm_new [OF assms(2)]
    by (simp add: dict_get_def keys start_store_def inject_data_norm_config map_of_dict_set)
  let ?et = "dict_get (cells s config) ''eval_type''"
  let ?am = "spec_addr (cells s config) ''model''"
  let ?ao = "spec_addr (cells s config) ''optimizer''"
  let ?c1 = "cells (start_store config s)"
  from main_trace [OF assms] obtain first final outs where
    run: "run_of X config s first final outs"
    and refs: "first \<le> final \<longrightarrow> is_ref (dict_item (cells s config) ''model'')
                              \<and> is_ref (dict_item (cells s config) ''optimizer'')"
    and st: "st = \<lparr>world = run_world X (entry_world X (start_store config s) config) outs,
           heap = start_store config s
              \<lparr>cells := run_cells X ?et ?am ?ao ?c1 (init_max_val_v ?et) outs\<rparr>,
           max_val_v = run_best ?et (init_max_val_v ?et) outs,
           events = start_events config save_path s @
              run_events X ?et ?am ?ao ?c1 save_path final (init_max_val_v ?et) outs\<rparr>"
    by blast
  have hc: "cells (heap st) = run_cells X ?et ?am ?ao ?c1 (init_max_val_v ?et) outs"
    by (simp add: st)
  have rf: "first \<le> final \<longrightarrow>
                 dict_item (cells s config) ''model'' = Inr (VRef ?am)
               \<and> dict_item (cells s config) ''optimizer'' = Inr (VRef ?ao)"
    using refs is_ref_spec_addr by blast
  have sd: "first \<le> final \<longrightarrow>
              (\<exists>w. cells (heap st) = with_sd X w ?am ?ao ?c1
                 \<and> dict_get (cells (heap st) ?ao) ''sd'' = VSd (optimizer_state_dict X w)
                 \<and> (?am \<noteq> ?ao \<longrightarrow>
                      dict_get (cells (heap st) ?am) ''sd'' = VSd (model_state_dict X w)))"
  proof
    assume le: "first \<le> final"
    with run_of_epochs [OF run] upto_nonempty [OF le] have "outs \<noteq> []" by auto
    from run_cells_nonempty [OF this] obtain w where
      w: "run_cells X ?et ?am ?ao ?c1 (init_max_val_v ?et) outs = with_sd X w ?am ?ao ?c1"
      by blast
    have "cells (heap st) = with_sd X w ?am ?ao ?c1
        \<and> dict_get (cells (heap st) ?ao) ''sd'' = VSd (optimizer_state_dict X w)
        \<and> (?am \<noteq> ?ao \<longrightarrow> dict_get (cells (heap st) ?am) ''sd'' = VSd (model_state_dict X w))"
      unfolding hc w by (simp add: with_sd_def Let_def dict_get_def map_of_dict_set)
    then show "\<exists>w. cells (heap st) = with_sd X w ?am ?ao ?c1
                 \<and> dict_get (cells (heap st) ?ao) ''sd'' = VSd (optimizer_state_dict X w)
                 \<and> (?am \<noteq> ?ao \<longrightarrow>
                      dict_get (cells (heap st) ?am) ''sd'' = VSd (model_state_dict X w))"
      by blast
  qed
  from run hc rf sd have P4: "\<exists>first final outs.
             run_of X config s first final outs
           \<and> cells (heap st) = run_cells X ?et ?am ?ao ?c1 (init_max_val_v ?et) outs
           \<and> (first \<le> final \<longrightarrow>
                 dict_item (cells s config) ''model'' = Inr (VRef ?am)
               \<and> dict_item (cells s config) ''optimizer'' = Inr (VRef ?ao)
               \<and> (\<exists>w. cells (heap st) = with_sd X w ?am ?ao ?c1
                     \<and> dict_get (cells (heap st) ?ao) ''sd'' = VSd (optimizer_state_dict X w)
                     \<and> (?am \<noteq> ?ao \<longrightarrow>
                        dict_get (cells (heap st) ?am) ''sd'' = VSd (model_state_dict X w))))"
    by blast
  from hd P1 P2 P3 P4 show ?thesis by (intro conjI)
qed

text \<open>The run on the full configuration: the dataset spec at 4 is untouched, the default
  \<open>data_norm\<close> is in place, and the two specs carry the state dicts of the last save.\<close>

theorem config_mutations_witness:
  "main demo_ext 0 ''save'' demo_store = Inr demo_final \<and> (0::nat) < nxt demo_store
   \<and> (4::nat) < nxt demo_store \<and> ''name'' \<noteq> ''sd'' \<and> (2::int) \<le> 3
   \<and> run_of demo_ext 0 demo_store 2 3 demo_outs
   \<and> dict_get (cells demo_store 0) ''data_norm'' = VNone
   \<and> dict_item (cells demo_store 0) ''model'' = Inr (VRef 1)
   \<and> dict_item (cells demo_store 0) ''optimizer'' = Inr (VRef 2)
   \<and> hd (events demo_final) = FileWrite ''save'' ''config.yaml'' (YamlDoc (VRef 0) (cells demo_store))
   \<and> cells (heap demo_final) 4 = cells demo_store 4
   \<and> dict_get (cells (heap demo_final) 0) ''data_norm'' = VRef 11
   \<and> dict_get (cells (heap demo_final) 11) ''inp'' = VRef 9
   \<and> dict_get (cells (heap demo_final) 9) ''sub'' = VList [VInt 0]
   \<and> cells (heap demo_final) 1 = [(''name'', VStr ''sam''), (''sd'', VSd [(''weight'', [102])])]
   \<and> cells (heap demo_final) 2 = [(''name'', VStr ''adamw''), (''sd'', VSd [(''step'', [102])])]"
  using config_mutations [OF demo_main, of 4 "''name''"]
  by (simp add: demo_main demo_run_of demo_store_facts demo_final_facts(3) demo_final_cells)

text \<open>After a run the model spec and the optimizer spec of the configuration carry an
  \<open>sd\<close> entry that they did not have when loaded: checkpoint saves modify the
  configuration.\<close>

theorem config_mutations_counterexample:
  "cells_after (main demo_ext 0 ''save'' demo_store) 1 =
     Some [(''name'', VStr ''sam''), (''sd'', VSd [(''weight'', [102])])]
   \<and> cells_after (main demo_ext 0 ''save'' demo_store) 2 =
     Some [(''name'', VStr ''adamw''), (''sd'', VSd [(''step'', [102])])]
   \<and> cells demo_store 1 = [(''name'', VStr ''sam'')]
   \<and> cells demo_store 2 = [(''name'', VStr ''adamw'')]"
  by (simp add: demo_main cells_after_def demo_final_cells demo_store_facts)

text \<open>
  C7.  A progress line is to be appended to the text log in every epoch.  The plain
  configuration sets no \<open>epoch_val\<close>; its run executes the epochs 1 and 2 and records the
  learning rate and the training loss of each, but appends no line to the log: the line
  is built in every epoch and emitted only inside the validation branch.
\<close>

theorem progress_per_epoch_no_validation:
  "dict_get (cells demo_plain_store 0) ''epoch_val'' = VNone
   \<and> epochs_run_of (main demo_ext 0 ''save'' demo_plain_store) = Inr [1, 2]
   \<and> run_log (main demo_ext 0 ''save'' demo_plain_store) =
       Inr [AddScalar ''lr'' 1 1, AddScalars ''loss'' ''train G'' 1 1,
            AddScalar ''lr'' 1 2, AddScalars ''loss'' ''train G'' 2 2]"
  unfolding demo_plain_main run_log_def epochs_run_of_def
  by (simp add: demo_plain_final_def demo_plain_outs_def scalars_and_logs_def epochs_run_def
        start_events_def out_events_def checkpoint_file_def start_store_def dict_has_def
        inject_data_norm_def alloc_def dict_get_def
        demo_plain_store_def demo_heap_def demo_plain_top_def demo_ext_def)

text \<open>
  C8.  A run that returns has executed exactly the epochs from its first epoch (1, or
  \<open>resume + 1\<close>) to \<open>epoch_max\<close>, in order and once each: \<open>epoch_max - first + 1\<close>
  iterations when \<open>first \<le> epoch_max\<close>.  And under the conditions \<open>runnable\<close>, in which
  no step raises, the run does return.
\<close>

theorem driver_runs_to_epoch_max:
  assumes "config < nxt s"
  shows "(main X config save_path s = Inr st \<longrightarrow>
           (\<exists>first final.
              dict_item (cells s config) ''epoch_max'' = Inr (VInt final)
            \<and> (if dict_get (cells s config) ''resume'' = VNone then first = 1
                else dict_get (cells s config) ''resume'' = VInt (first - 1))
            \<and> epochs_run (events st) = [first..final]
            \<and> (first \<le> final \<longrightarrow>
                 length (epochs_run (events st)) = nat (final - first + 1))))
       \<and> (runnable X config s lo hi \<longrightarrow> (\<exists>st'. main X config save_path s = Inr st'))"
proof (intro conjI impI)
  assume m: "main X config save_path s = Inr st"
  let ?s1 = "start_store config s"
  from main_loop [OF m] obtain tl vl w first final eval_type where
    p: "prepare_training X ?s1 config = Inr (w, VInt first)"
    and em: "dict_item (cells ?s1 config) ''epoch_max'' = Inr (VInt final)"
    and l: "epoch_loop X config save_path tl vl
        final (dict_get (cells ?s1 config) ''epoch_val'')
        [first..final]
        \<lparr>world = start_world X (cells ?s1 config) w, heap = ?s1,
         max_val_v = init_max_val_v eval_type,
         events = start_events config save_path s\<rparr> = Inr st"
    by blast
  from prepare_training_Inr [OF p]
  have "if dict_get (cells ?s1 config) ''resume'' = VNone then first = 1
        else dict_get (cells ?s1 config) ''resume'' = VInt (first - 1)"
    by (auto simp: py_add1_VInt split: if_splits)
  with assms have rs: "if dict_get (cells s config) ''resume'' = VNone then first = 1
        else dict_get (cells s config) ''resume'' = VInt (first - 1)"
    by (simp add: start_store_get cong: if_cong)
  from em assms have em': "dict_item (cells s config) ''epoch_max'' = Inr (VInt final)"
    by (simp add: start_store_item)
  from epoch_loop_frame [OF l] have er: "epochs_run (events st) = [first..final]"
    by auto
  have "first \<le> final \<longrightarrow> length (epochs_run (events st)) = nat (final - first + 1)"
    by (simp add: er)
  with em' rs er
  show "\<exists>first final.
              dict_item (cells s config) ''epoch_max'' = Inr (VInt final)
            \<and> (if dict_get (cells s config) ''resume'' = VNone then first = 1
                else dict_get (cells s config) ''resume'' = VInt (first - 1))
            \<and> epochs_run (events st) = [first..final]
            \<and> (first \<le> final \<longrightarrow>
                 length (epochs_run (events st)) = nat (final - first + 1))"
    by blast
next
  assume "runnable X config s lo hi"
  from main_returns [OF assms this]
  show "\<exists>st'. main X config save_path s = Inr st'" .
qed

theorem driver_runs_to_epoch_max_witness:
  "(0::nat) < nxt demo_store \<and> runnable demo_ext 0 demo_store 2 3
   \<and> main demo_ext 0 ''save'' demo_store = Inr demo_final
   \<and> dict_item (cells demo_store 0) ''epoch_max'' = Inr (VInt 3)
   \<and> dict_get (cells demo_store 0) ''resume'' = VInt (2 - 1)
   \<and> epochs_run (events demo_final) = [2, 3]
   \<and> (2::int) \<le> 3
   \<and> length (epochs_run (events demo_final)) = nat (3 - 2 + 1)"
  using driver_runs_to_epoch_max [of 0 demo_store demo_ext "''save''" demo_final 2 3]
  by (simp add: demo_main demo_runnable demo_store_facts demo_final_facts)

end
